(* ===== verification/Prelude.thy ===== *)
theory Prelude
  imports Main
begin

text \<open>
  Shared vocabulary of the development: the collections of unfolding rules that the
  component theories fill, the result type of fallible operations with its
  combinators, and lemmas on lists, options and association lists that several
  components use. Nothing here models a line of the repository; the definitions are
  the plumbing (sequencing of fallible steps, guarded indexing) that the models of
  the components are written with.
\<close>

section \<open>Collections of rules\<close>

named_theorems js_defs \<open>definitions of the JavaScript value layer\<close>
named_theorems render_defs \<open>definitions of the cell renderers\<close>
named_theorems render_view \<open>what each cell renderer shows: classes, text, tooltip, variant\<close>
named_theorems chat_defs \<open>definitions of the chat message formatter\<close>
named_theorems schema_defs \<open>definitions of the shape validators\<close>
named_theorems test_defs \<open>definitions of the test cases and their fixtures\<close>

section \<open>Results of fallible operations\<close>

text \<open>
  A fallible operation returns \<open>Inl e\<close> for a failure \<open>e\<close> and \<open>Inr x\<close> for a value
  \<open>x\<close>. \<open>and_then\<close> sequences two fallible steps and stops at the first failure;
  \<open>traverse\<close> runs a fallible step over a list from left to right, with the index of
  the element, and stops at the first failure.
\<close>

type_synonym ('e, 'a) result = "'e + 'a"

definition succeeded :: "('e, 'a) result \<Rightarrow> bool" where
  "succeeded r = (case r of Inl _ \<Rightarrow> False | Inr _ \<Rightarrow> True)"

definition and_then :: "('e, 'a) result \<Rightarrow> ('a \<Rightarrow> ('e, 'b) result) \<Rightarrow> ('e, 'b) result" where
  "and_then r f = (case r of Inl e \<Rightarrow> Inl e | Inr x \<Rightarrow> f x)"

fun traverse_from :: "nat \<Rightarrow> (nat \<Rightarrow> 'a \<Rightarrow> ('e, 'b) result) \<Rightarrow> 'a list \<Rightarrow> ('e, 'b list) result" where
  "traverse_from i f [] = Inr []"
| "traverse_from i f (x # xs) =
     (case f i x of
        Inl e \<Rightarrow> Inl e
      | Inr y \<Rightarrow> (case traverse_from (Suc i) f xs of Inl e \<Rightarrow> Inl e | Inr ys \<Rightarrow> Inr (y # ys)))"

definition traverse :: "(nat \<Rightarrow> 'a \<Rightarrow> ('e, 'b) result) \<Rightarrow> 'a list \<Rightarrow> ('e, 'b list) result" where
  "traverse f xs = traverse_from 0 f xs"

lemma succeeded_simps [simp]: "succeeded (Inr x)" "\<not> succeeded (Inl e)"
  by (simp_all add: succeeded_def)

lemma succeeded_iff: "succeeded r \<longleftrightarrow> (\<exists>x. r = Inr x)"
  by (cases r) simp_all

lemma not_succeeded_iff: "\<not> succeeded r \<longleftrightarrow> (\<exists>e. r = Inl e)"
  by (cases r) simp_all

lemma and_then_simps [simp]:
  "and_then (Inl e) f = Inl e"
  "and_then (Inr x) f = f x"
  by (simp_all add: and_then_def)

lemma and_then_Inr_iff: "and_then r f = Inr y \<longleftrightarrow> (\<exists>x. r = Inr x \<and> f x = Inr y)"
  by (cases r) simp_all

lemma and_then_Inl_iff:
  "and_then r f = Inl e \<longleftrightarrow> r = Inl e \<or> (\<exists>x. r = Inr x \<and> f x = Inl e)"
  by (cases r) simp_all

lemma succeeded_and_then:
  "succeeded (and_then r f) \<longleftrightarrow> (\<exists>x. r = Inr x \<and> succeeded (f x))"
  by (cases r) simp_all

lemma and_then_assoc: "and_then (and_then r f) g = and_then r (\<lambda>x. and_then (f x) g)"
  by (cases r) simp_all

lemma and_then_Inr_right [simp]: "and_then r Inr = r"
  by (cases r) simp_all

text \<open>A traversal succeeds exactly when every element does, and then keeps the length.\<close>

lemma traverse_from_Inr_iff:
  "traverse_from i f xs = Inr ys \<longleftrightarrow>
     length ys = length xs \<and> (\<forall>k < length xs. f (i + k) (xs ! k) = Inr (ys ! k))"
proof (induction xs arbitrary: i ys)
  case Nil
  then show ?case by auto
next
  case (Cons x xs)
  show ?case
  proof (cases ys)
    case Nil
    then show ?thesis by (auto split: sum.splits)
  next
    case (Cons y ys')
    have "(\<forall>k < Suc (length xs). f (i + k) ((x # xs) ! k) = Inr ((y # ys') ! k)) \<longleftrightarrow>
          f i x = Inr y \<and> (\<forall>k < length xs. f (Suc i + k) (xs ! k) = Inr (ys' ! k))"
      by (auto simp: less_Suc_eq_0_disj)
    with Cons Cons.IH [of "Suc i" ys'] show ?thesis
      by (auto split: sum.splits)
  qed
qed

lemma traverse_Inr_iff:
  "traverse f xs = Inr ys \<longleftrightarrow>
     length ys = length xs \<and> (\<forall>k < length xs. f k (xs ! k) = Inr (ys ! k))"
  by (simp add: traverse_def traverse_from_Inr_iff)

lemma traverse_from_succeeded_iff:
  "succeeded (traverse_from i f xs) \<longleftrightarrow> (\<forall>k < length xs. succeeded (f (i + k) (xs ! k)))"
proof (induction xs arbitrary: i)
  case Nil
  then show ?case by simp
next
  case (Cons x xs)
  have "(\<forall>k < Suc (length xs). succeeded (f (i + k) ((x # xs) ! k))) \<longleftrightarrow>
        succeeded (f i x) \<and> (\<forall>k < length xs. succeeded (f (Suc i + k) (xs ! k)))"
    by (auto simp: less_Suc_eq_0_disj)
  with Cons.IH [of "Suc i"] show ?case
    by (auto split: sum.splits simp: succeeded_iff)
qed

lemma traverse_succeeded_iff:
  "succeeded (traverse f xs) \<longleftrightarrow> (\<forall>k < length xs. succeeded (f k (xs ! k)))"
  by (simp add: traverse_def traverse_from_succeeded_iff)

text \<open>A traversal that fails, fails with the failure of one of its elements.\<close>

lemma traverse_from_Inl:
  "traverse_from i f xs = Inl e \<Longrightarrow> \<exists>k < length xs. f (i + k) (xs ! k) = Inl e"
proof (induction xs arbitrary: i)
  case Nil
  then show ?case by simp
next
  case (Cons x xs)
  show ?case
  proof (cases "f i x")
    case (Inl e')
    with Cons.prems have "f (i + 0) ((x # xs) ! 0) = Inl e" by simp
    then show ?thesis by blast
  next
    case (Inr y)
    with Cons.prems have "traverse_from (Suc i) f xs = Inl e"
      by (simp split: sum.splits)
    from Cons.IH [OF this] obtain k where "k < length xs" "f (Suc i + k) (xs ! k) = Inl e"
      by blast
    then have "Suc k < length (x # xs)" "f (i + Suc k) ((x # xs) ! Suc k) = Inl e"
      by simp_all
    then show ?thesis by blast
  qed
qed

lemma traverse_Inl: "traverse f xs = Inl e \<Longrightarrow> \<exists>k < length xs. f k (xs ! k) = Inl e"
  using traverse_from_Inl [of 0 f xs e] by (simp add: traverse_def)

lemma traverse_from_map:
  "traverse_from i f (map g xs) = traverse_from i (\<lambda>k x. f k (g x)) xs"
  by (induction xs arbitrary: i) (simp_all cong: sum.case_cong)

lemma traverse_from_all_Inr:
  "(\<And>k x. x \<in> set xs \<Longrightarrow> f k x = Inr (g x)) \<Longrightarrow> traverse_from i f xs = Inr (map g xs)"
  by (induction xs arbitrary: i) simp_all

lemma traverse_all_Inr:
  "(\<And>k x. x \<in> set xs \<Longrightarrow> f k x = Inr (g x)) \<Longrightarrow> traverse f xs = Inr (map g xs)"
  by (simp add: traverse_def traverse_from_all_Inr)

section \<open>Guarded indexing\<close>

text \<open>
  \<open>xs ! i\<close> says nothing outside the list. \<open>at xs i P\<close> holds when position \<open>i\<close> exists
  and its element satisfies \<open>P\<close>; \<open>nth_opt\<close> returns the element, if there is one.
\<close>

definition nth_opt :: "'a list \<Rightarrow> nat \<Rightarrow> 'a option" where
  "nth_opt xs i = (if i < length xs then Some (xs ! i) else None)"

definition at :: "'a list \<Rightarrow> nat \<Rightarrow> ('a \<Rightarrow> bool) \<Rightarrow> bool" where
  "at xs i P = (case nth_opt xs i of None \<Rightarrow> False | Some x \<Rightarrow> P x)"

lemma nth_opt_simps [simp]:
  "nth_opt [] i = None"
  "nth_opt (x # xs) 0 = Some x"
  "nth_opt (x # xs) (Suc i) = nth_opt xs i"
  by (simp_all add: nth_opt_def)

lemma nth_opt_Some_iff: "nth_opt xs i = Some x \<longleftrightarrow> i < length xs \<and> xs ! i = x"
  by (auto simp: nth_opt_def)

lemma nth_opt_map: "nth_opt (map f xs) i = map_option f (nth_opt xs i)"
  by (simp add: nth_opt_def)

lemma nth_opt_append:
  "nth_opt (xs @ ys) i = (if i < length xs then nth_opt xs i else nth_opt ys (i - length xs))"
  by (auto simp: nth_opt_def nth_append)

lemma at_iff: "at xs i P \<longleftrightarrow> i < length xs \<and> P (xs ! i)"
  by (simp add: at_def nth_opt_def)

lemma at_simps [simp]:
  "\<not> at [] i P"
  "at (x # xs) 0 P = P x"
  "at (x # xs) (Suc i) P = at xs i P"
  by (simp_all add: at_def)

lemma nth_opt_numeral [simp]:
  "nth_opt (x # xs) (numeral n) = nth_opt xs (pred_numeral n)"
  by (simp add: nth_opt_def nth_Cons_numeral)

lemma at_numeral [simp]: "at (x # xs) (numeral n) P = at xs (pred_numeral n) P"
  by (simp add: at_def)

lemma at_map:"at (map f xs) i P = at xs i (\<lambda>x. P (f x))"
  by (auto simp: at_iff)

section \<open>Association lists\<close>

lemma map_of_eq_None_iff': "map_of kvs k = None \<longleftrightarrow> k \<notin> fst ` set kvs"
  by (rule map_of_eq_None_iff)

lemma map_of_filter_other:
  "map_of (filter (\<lambda>kv. fst kv \<noteq> k') kvs) k = (if k = k' then None else map_of kvs k)"
  by (induction kvs) auto

lemma map_of_Some_size:
  "map_of kvs k = Some v \<Longrightarrow> f v \<le> size_list (size_prod g f) kvs"
  by (induction kvs) (auto split: if_splits)

end
