(* ===== verification/JsValue.thy ===== *)
theory JsValue
  imports Prelude
begin

text \<open>
  The JavaScript values that the sources handle, and the three operations of the
  language that the sources apply to them: property lookup \<open>obj[key]\<close>, the
  conversion to a boolean that a conditional performs, and \<open>String(value)\<close>.

  Numbers are modelled as integers: fractions, \<open>NaN\<close>, the infinities and \<open>-0\<close> are
  outside the model. The integers are unbounded, where a JavaScript number is a
  double: \<open>js_String\<close> prints every integer in plain decimal, which is what
  \<open>String\<close> does for integers below \<open>1e21\<close> in magnitude; from there on \<open>String\<close>
  prints an exponent form, which the model does not have, and integers above
  \<open>2^53\<close> are not all representable. An object is an association list read by first match; the object
  literals of the sources have no duplicate keys, and properties inherited from
  \<open>Object.prototype\<close> are not modelled. Text is a list of bytes (UTF-8).
\<close>

section \<open>Values\<close>

datatype jsval =
    JUndefined
  | JNull
  | JBool bool
  | JNum int
  | JStr string
  | JArr "jsval list"
  | JObj "(string \<times> jsval) list"

type_synonym js_object = "(string \<times> jsval) list"

section \<open>Property lookup\<close>

text \<open>\<open>obj[key]\<close>: the value stored under the key, \<open>undefined\<close> when there is none.\<close>

definition get_prop :: "js_object \<Rightarrow> string \<Rightarrow> jsval" where
  "get_prop obj k = (case map_of obj k of None \<Rightarrow> JUndefined | Some v \<Rightarrow> v)"

lemma get_prop_Nil [simp]: "get_prop [] k = JUndefined"
  by (simp add: get_prop_def)

lemma get_prop_Cons [simp]:
  "get_prop ((k', v) # obj) k = (if k = k' then v else get_prop obj k)"
  by (simp add: get_prop_def)

lemma get_prop_absent: "k \<notin> fst ` set obj \<Longrightarrow> get_prop obj k = JUndefined"
  by (simp add: get_prop_def map_of_eq_None_iff [THEN iffD2])

lemma get_prop_present:
  "get_prop obj k \<noteq> JUndefined \<Longrightarrow> (k, get_prop obj k) \<in> set obj"
  by (auto simp: get_prop_def split: option.splits dest: map_of_SomeD)

lemma get_prop_append:
  "get_prop (xs @ ys) k = (if k \<in> fst ` set xs then get_prop xs k else get_prop ys k)"
  by (induction xs) force+

lemma size_get_prop: "size (get_prop obj k) < size (JObj obj)"
proof (cases "map_of obj k")
  case None
  then show ?thesis by (simp add: get_prop_def)
next
  case (Some v)
  from map_of_Some_size [OF this, of size "\<lambda>_. 0"] show ?thesis
    by (simp add: get_prop_def Some)
qed

section \<open>Truthiness\<close>

text \<open>
  The conversion a conditional applies to its test: \<open>undefined\<close>, \<open>null\<close>, \<open>false\<close>,
  \<open>0\<close> and the empty string are falsy, every other value is truthy.
\<close>

fun truthy :: "jsval \<Rightarrow> bool" where
  "truthy JUndefined = False"
| "truthy JNull = False"
| "truthy (JBool b) = b"
| "truthy (JNum n) = (n \<noteq> 0)"
| "truthy (JStr s) = (s \<noteq> [])"
| "truthy (JArr xs) = True"
| "truthy (JObj kvs) = True"

lemma falsy_iff:
  "\<not> truthy v \<longleftrightarrow> v \<in> {JUndefined, JNull, JBool False, JNum 0, JStr []}"
  by (cases v) auto

section \<open>Conversion to text\<close>

text \<open>
  The decimal digits of a natural number, most significant first, as
  \<open>Number.prototype.toString\<close> prints an integer.
\<close>

definition digit_char :: "nat \<Rightarrow> char" where
  "digit_char d = ''0123456789'' ! d"

fun nat_digits :: "nat \<Rightarrow> string" where
  "nat_digits n = (if n < 10 then [digit_char n] else nat_digits (n div 10) @ [digit_char (n mod 10)])"

declare nat_digits.simps [simp del]

definition int_digits :: "int \<Rightarrow> string" where
  "int_digits i = (if i < 0 then CHR ''-'' # nat_digits (nat (- i)) else nat_digits (nat i))"

text \<open>\<open>Array.prototype.join\<close>: the pieces with the separator between them.\<close>

fun join :: "string \<Rightarrow> string list \<Rightarrow> string" where
  "join sep [] = []"
| "join sep [s] = s"
| "join sep (s # t # ts) = s @ sep @ join sep (t # ts)"

text \<open>
  \<open>String(value)\<close>. An array prints its elements separated by commas, with \<open>null\<close> and
  \<open>undefined\<close> elements printed as nothing; a plain object prints as
  \<open>[object Object]\<close>.
\<close>

fun js_String :: "jsval \<Rightarrow> string" where
  "js_String JUndefined = ''undefined''"
| "js_String JNull = ''null''"
| "js_String (JBool b) = (if b then ''true'' else ''false'')"
| "js_String (JNum n) = int_digits n"
| "js_String (JStr s) = s"
| "js_String (JArr xs) =
     join '','' (map (\<lambda>x. if x = JNull \<or> x = JUndefined then [] else js_String x) xs)"
| "js_String (JObj kvs) = ''[object Object]''"

lemmas [js_defs] = get_prop_def digit_char_def int_digits_def

subsection \<open>Decimal digits\<close>

text \<open>
  The reference reading of a digit string, used to state that printing loses nothing:
  the value of the digits in base ten.
\<close>

definition digit_value :: "char \<Rightarrow> nat" where
  "digit_value c = of_char c - 48"

definition digits_value :: "string \<Rightarrow> nat" where
  "digits_value s = foldl (\<lambda>acc c. 10 * acc + digit_value c) 0 s"

definition is_digit :: "char \<Rightarrow> bool" where
  "is_digit c \<longleftrightarrow> 48 \<le> (of_char c :: nat) \<and> (of_char c :: nat) \<le> 57"

lemma digit_char_cases:
  "d < 10 \<Longrightarrow> d = 0 \<or> d = 1 \<or> d = 2 \<or> d = 3 \<or> d = 4 \<or> d = 5 \<or> d = 6 \<or> d = 7 \<or> d = 8 \<or> d = (9::nat)"
  by arith

lemma digit_value_digit_char [simp]: "d < 10 \<Longrightarrow> digit_value (digit_char d) = d"
  using digit_char_cases [of d] by (auto simp: digit_value_def digit_char_def)

lemma is_digit_digit_char [simp]: "d < 10 \<Longrightarrow> is_digit (digit_char d)"
  using digit_char_cases [of d] by (auto simp: is_digit_def digit_char_def)

lemma digit_char_not_minus [simp]: "d < 10 \<Longrightarrow> digit_char d \<noteq> CHR ''-''"
  using digit_char_cases [of d] by (auto simp: digit_char_def)

lemma digits_value_snoc [simp]:
  "digits_value (s @ [c]) = 10 * digits_value s + digit_value c"
  by (simp add: digits_value_def)

lemma digits_value_single [simp]: "digits_value [c] = digit_value c"
  by (simp add: digits_value_def)

lemma nat_digits_nonempty [simp]: "nat_digits n \<noteq> []"
  by (subst nat_digits.simps) simp

lemma digits_value_nat_digits [simp]: "digits_value (nat_digits n) = n"
proof (induction n rule: nat_digits.induct)
  case (1 n)
  show ?case
  proof (cases "n < 10")
    case True
    then show ?thesis by (subst nat_digits.simps) simp
  next
    case False
    with "1.IH" have "digits_value (nat_digits (n div 10)) = n div 10" by simp
    with False show ?thesis by (subst nat_digits.simps) simp
  qed
qed

lemma nat_digits_all_digits: "list_all is_digit (nat_digits n)"
proof (induction n rule: nat_digits.induct)
  case (1 n)
  show ?case
  proof (cases "n < 10")
    case True
    then show ?thesis by (subst nat_digits.simps) simp
  next
    case False
    with "1.IH" have "list_all is_digit (nat_digits (n div 10))" by simp
    with False show ?thesis by (subst nat_digits.simps) simp
  qed
qed

lemma nat_digits_inject [simp]: "nat_digits m = nat_digits n \<longleftrightarrow> m = n"
proof
  assume "nat_digits m = nat_digits n"
  then have "digits_value (nat_digits m) = digits_value (nat_digits n)" by simp
  then show "m = n" by simp
qed simp

lemma hd_nat_digits_not_minus: "hd (nat_digits n) \<noteq> CHR ''-''"
proof -
  have "list_all (\<lambda>c. c \<noteq> CHR ''-'') (nat_digits n)"
    using nat_digits_all_digits [of n]
    by (rule list.pred_mono_strong) (auto simp: is_digit_def)
  then show ?thesis
    by (cases "nat_digits n") simp_all
qed

lemma int_digits_inject [simp]: "int_digits i = int_digits j \<longleftrightarrow> i = j"
proof
  assume eq: "int_digits i = int_digits j"
  have minus: "CHR ''-'' # nat_digits a \<noteq> nat_digits b" for a b
    using hd_nat_digits_not_minus [of b] by (cases "nat_digits b") auto
  show "i = j"
  proof (cases "i < 0")
    case True
    with eq minus [of "nat (- i)" "nat j"] have "j < 0"
      by (auto simp: int_digits_def split: if_splits)
    with True eq show ?thesis by (simp add: int_digits_def)
  next
    case False
    with eq minus [of "nat (- j)" "nat i"] have "\<not> j < 0"
      by (auto simp: int_digits_def split: if_splits)
    with False eq show ?thesis by (simp add: int_digits_def)
  qed
qed simp

end
