(* ===== verification/CellRenderer.thy ===== *)
theory CellRenderer
  imports JsValue
begin

text \<open>
  The data-grid cell renderer factory of
  \<open>src/frontend/src/components/datagrid/DefaultCellRenderer.tsx\<close>.

  \<open>createDefaultCellRenderer\<close> returns one renderer per kind of column. A renderer
  reads the cell \<open>row[column.key]\<close>, asks the utilities whether the value is empty
  and how to display it, and returns a tree of elements. The utilities
  (\<open>isEmptyValue\<close>, \<open>formatValueForDisplay\<close>) are imported from outside the sources,
  so the renderers take them as a parameter, the record \<open>utils\<close>; every lemma holds
  for any utilities. The class-name combinator \<open>cn\<close> is also imported: a class name
  built by it is kept as the call \<open>Cn args\<close> with the arguments the source passes.

  The second half of the theory reads a rendered tree the way a user sees it (its
  text, its tooltip, its tone, the variant of its badge) and proves that each
  renderer shows what \<open>view_spec\<close> prescribes.
\<close>

section \<open>Elements\<close>

datatype ColumnType = STRING | BOOLEAN | DATETIME | DATE | JSON

text \<open>An argument of \<open>cn\<close>: a string of class names, or \<open>false\<close>.\<close>

datatype ClassValue = ClassStr string | ClassFalse

text \<open>The value of an attribute: a string, or a call of \<open>cn\<close>.\<close>

datatype attr_value = Lit string | Cn "ClassValue list"

text \<open>A rendered tree: text, or an element with its tag, attributes and children.\<close>

datatype node = TextNode string | Element string "(string \<times> attr_value) list" "node list"

record Column =
  key :: string

record RenderCellProps =
  row :: js_object
  column :: Column

record utils =
  isEmptyValue :: "jsval \<Rightarrow> bool"
  formatValueForDisplay :: "jsval \<Rightarrow> ColumnType \<Rightarrow> string"

section \<open>The renderers\<close>

definition text_cell :: "utils \<Rightarrow> RenderCellProps \<Rightarrow> node" where
  "text_cell u p =
     (let value = get_prop (row p) (key (column p));
          isNull = isEmptyValue u value;
          displayValue = formatValueForDisplay u value STRING
      in Element ''div'' [(''className'', Lit ''w-full h-full flex items-center'')]
           [Element ''span''
              [(''className'', Cn [ClassStr ''truncate'',
                  ClassStr (if isNull then ''text-muted-foreground italic pr-1''
                            else ''dark:text-zinc-300'')]),
               (''title'', Lit displayValue)]
              [TextNode displayValue]])"

definition boolean :: "utils \<Rightarrow> RenderCellProps \<Rightarrow> node" where
  "boolean u p =
     (let value = get_prop (row p) (key (column p));
          isNull = isEmptyValue u value;
          displayValue = formatValueForDisplay u value BOOLEAN
      in Element ''div'' [(''className'', Lit ''w-full h-full flex items-center justify-start'')]
           [Element ''Badge''
              [(''variant'', Lit (if isNull then ''secondary''
                                  else if truthy value then ''default'' else ''secondary'')),
               (''className'', Cn [ClassStr ''py-0.5 px-1.5 border border-transparent'',
                  if isNull then ClassStr ''text-muted-foreground italic'' else ClassFalse])]
              [TextNode displayValue]])"

definition datetime :: "utils \<Rightarrow> RenderCellProps \<Rightarrow> node" where
  "datetime u p =
     (let value = get_prop (row p) (key (column p));
          isNull = isEmptyValue u value;
          displayValue = formatValueForDisplay u value DATETIME;
          isError = (displayValue = ''Invalid date time'')
      in Element ''div'' [(''className'', Lit ''w-full h-full flex items-center'')]
           [Element ''span''
              [(''className'', Cn [ClassStr ''truncate'',
                  ClassStr (if isNull then ''text-muted-foreground italic pr-1''
                            else if isError then ''text-red-500''
                            else ''text-black dark:text-zinc-300'')]),
               (''title'', Lit displayValue)]
              [TextNode displayValue]])"

definition date :: "utils \<Rightarrow> RenderCellProps \<Rightarrow> node" where
  "date u p =
     (let value = get_prop (row p) (key (column p));
          isNull = isEmptyValue u value;
          displayValue = formatValueForDisplay u value DATE;
          isError = (displayValue = ''Invalid date'')
      in Element ''div'' [(''className'', Lit ''w-full h-full flex items-center'')]
           [Element ''span''
              [(''className'', Cn [ClassStr ''truncate'',
                  ClassStr (if isNull then ''text-muted-foreground italic pr-1''
                            else if isError then ''text-red-500''
                            else ''text-black dark:text-zinc-300'')]),
               (''title'', Lit displayValue)]
              [TextNode displayValue]])"

definition json :: "utils \<Rightarrow> RenderCellProps \<Rightarrow> node" where
  "json u p =
     (let value = get_prop (row p) (key (column p));
          isNull = isEmptyValue u value;
          displayText = formatValueForDisplay u value JSON;
          isError = (displayText = ''Invalid JSON'')
      in Element ''div'' [(''className'', Lit ''w-full h-full flex items-center'')]
           [Element ''span''
              [(''className'', Cn [ClassStr ''truncate text-sm max-w-full overflow-hidden whitespace-nowrap'',
                  ClassStr (if isNull then ''text-muted-foreground italic pr-1''
                            else if isError then ''text-red-500''
                            else ''text-black dark:text-zinc-300'')]),
               (''title'', Lit displayText)]
              [TextNode displayText]])"

definition id_cell :: "RenderCellProps \<Rightarrow> node" where
  "id_cell p =
     (let value = get_prop (row p) (key (column p))
      in Element ''IdCell'' [(''value'', Lit (js_String value))] [])"

definition email :: "utils \<Rightarrow> RenderCellProps \<Rightarrow> node" where
  "email u p =
     (let value = get_prop (row p) (key (column p));
          isNull = isEmptyValue u value;
          displayValue = formatValueForDisplay u value STRING
      in Element ''span''
           [(''className'', Cn [ClassStr ''text-sm truncate'',
               ClassStr (if isNull then ''text-muted-foreground italic pr-1''
                         else ''text-gray-800 font-medium dark:text-zinc-300'')]),
            (''title'', Lit displayValue)]
           [TextNode displayValue])"

text \<open>The factory: the object of renderers, read by the name of its field.\<close>

datatype renderer_key = KText | KBoolean | KDatetime | KDate | KJson | KId | KEmail

fun createDefaultCellRenderer :: "utils \<Rightarrow> renderer_key \<Rightarrow> RenderCellProps \<Rightarrow> node" where
  "createDefaultCellRenderer u KText = text_cell u"
| "createDefaultCellRenderer u KBoolean = boolean u"
| "createDefaultCellRenderer u KDatetime = datetime u"
| "createDefaultCellRenderer u KDate = date u"
| "createDefaultCellRenderer u KJson = json u"
| "createDefaultCellRenderer u KId = id_cell"
| "createDefaultCellRenderer u KEmail = email u"

lemmas renderer_defs [render_defs] =
  text_cell_def boolean_def datetime_def date_def json_def id_cell_def email_def

section \<open>Reading a rendered tree\<close>

text \<open>
  What follows is the specification side: it does not translate code, it observes
  the trees that the code builds. A string of class names is read as the list of
  its names; the text of a tree is the text of its leaves from left to right; the
  attributes of a name are collected from the root downwards.
\<close>

fun split_on :: "char \<Rightarrow> string \<Rightarrow> string list" where
  "split_on c [] = [[]]"
| "split_on c (x # xs) =
     (if x = c then [] # split_on c xs
      else (case split_on c xs of [] \<Rightarrow> [[x]] | w # ws \<Rightarrow> (x # w) # ws))"

definition class_names :: "string \<Rightarrow> string list" where
  "class_names s = filter (\<lambda>w. w \<noteq> []) (split_on CHR '' '' s)"

fun class_value_names :: "ClassValue \<Rightarrow> string list" where
  "class_value_names (ClassStr s) = class_names s"
| "class_value_names ClassFalse = []"

fun attr_names :: "attr_value \<Rightarrow> string list" where
  "attr_names (Lit s) = class_names s"
| "attr_names (Cn cvs) = concat (map class_value_names cvs)"

fun texts :: "node \<Rightarrow> string list" where
  "texts (TextNode s) = [s]"
| "texts (Element t ps cs) = concat (map texts cs)"

fun attrs :: "string \<Rightarrow> node \<Rightarrow> attr_value list" where
  "attrs a (TextNode s) = []"
| "attrs a (Element t ps cs) =
     map snd (filter (\<lambda>kv. fst kv = a) ps) @ concat (map (attrs a) cs)"

fun tags :: "node \<Rightarrow> string list" where
  "tags (TextNode s) = []"
| "tags (Element t ps cs) = t # concat (map tags cs)"

definition classes :: "node \<Rightarrow> string list" where
  "classes n = concat (map attr_names (attrs ''className'' n))"

fun first_lit :: "attr_value list \<Rightarrow> string option" where
  "first_lit (Lit s # _) = Some s"
| "first_lit _ = None"

text \<open>
  The tone of a cell: muted when it carries the class of placeholder text, failed
  when it carries the red class, plain otherwise.
\<close>

datatype tone = Muted | Failed | Plain

definition tone_of :: "string list \<Rightarrow> tone" where
  "tone_of names =
     (if ''text-muted-foreground'' \<in> set names then Muted
      else if ''text-red-500'' \<in> set names then Failed
      else Plain)"

record view =
  shown :: string
  tooltip :: "string option"
  tone :: tone
  variant :: "string option"

definition view_of :: "node \<Rightarrow> view" where
  "view_of n =
     \<lparr>shown = concat (texts n),
      tooltip = first_lit (attrs ''title'' n),
      tone = tone_of (classes n),
      variant = first_lit (attrs ''variant'' n)\<rparr>"

section \<open>What a cell is to show\<close>

text \<open>
  The column type a renderer formats its value with (the id renderer formats
  nothing), and the display text that a renderer takes for a failure.
\<close>

fun column_type :: "renderer_key \<Rightarrow> ColumnType option" where
  "column_type KText = Some STRING"
| "column_type KBoolean = Some BOOLEAN"
| "column_type KDatetime = Some DATETIME"
| "column_type KDate = Some DATE"
| "column_type KJson = Some JSON"
| "column_type KId = None"
| "column_type KEmail = Some STRING"

fun error_text :: "renderer_key \<Rightarrow> string option" where
  "error_text KDatetime = Some ''Invalid date time''"
| "error_text KDate = Some ''Invalid date''"
| "error_text KJson = Some ''Invalid JSON''"
| "error_text _ = None"

definition cell_value :: "RenderCellProps \<Rightarrow> jsval" where
  "cell_value p = get_prop (row p) (key (column p))"

text \<open>
  The view of a cell of kind \<open>k\<close> whose value is empty or not (\<open>isNull\<close>), truthy or
  not (\<open>isTrue\<close>), and displayed as \<open>display\<close>: the text is the display text; every
  kind but the badge of a boolean has it as its tooltip too; an empty value is muted
  whatever its display text, a failure text is failed, anything else plain; the
  badge of a boolean is \<open>default\<close> for a truthy value that is not empty.
\<close>

definition view_spec :: "renderer_key \<Rightarrow> bool \<Rightarrow> bool \<Rightarrow> string \<Rightarrow> view" where
  "view_spec k isNull isTrue display =
     \<lparr>shown = display,
      tooltip = (if k = KBoolean then None else Some display),
      tone = (if isNull then Muted else if error_text k = Some display then Failed else Plain),
      variant = (if k = KBoolean
                 then Some (if \<not> isNull \<and> isTrue then ''default'' else ''secondary'')
                 else None)\<rparr>"

text \<open>A stand-in for the imported utilities, to run the renderers on concrete rows.\<close>

definition demo_utils :: utils where
  "demo_utils =
     \<lparr>isEmptyValue = (\<lambda>v. v = JNull \<or> v = JUndefined),
      formatValueForDisplay = (\<lambda>v t. if v = JNull \<or> v = JUndefined then ''null'' else js_String v)\<rparr>"

definition demo_props :: "js_object \<Rightarrow> string \<Rightarrow> RenderCellProps" where
  "demo_props r k = \<lparr>row = r, column = \<lparr>key = k\<rparr>\<rparr>"

subsection \<open>Class names\<close>

lemma class_names_literals [simp]:
  "class_names ''truncate'' = [''truncate'']"
  "class_names ''text-red-500'' = [''text-red-500'']"
  "class_names ''dark:text-zinc-300'' = [''dark:text-zinc-300'']"
  "class_names ''text-sm truncate'' = [''text-sm'', ''truncate'']"
  "class_names ''text-muted-foreground italic'' = [''text-muted-foreground'', ''italic'']"
  "class_names ''text-muted-foreground italic pr-1'' = [''text-muted-foreground'', ''italic'', ''pr-1'']"
  "class_names ''text-black dark:text-zinc-300'' = [''text-black'', ''dark:text-zinc-300'']"
  "class_names ''text-gray-800 font-medium dark:text-zinc-300'' =
     [''text-gray-800'', ''font-medium'', ''dark:text-zinc-300'']"
  "class_names ''w-full h-full flex items-center'' = [''w-full'', ''h-full'', ''flex'', ''items-center'']"
  "class_names ''w-full h-full flex items-center justify-start'' =
     [''w-full'', ''h-full'', ''flex'', ''items-center'', ''justify-start'']"
  "class_names ''py-0.5 px-1.5 border border-transparent'' =
     [''py-0.5'', ''px-1.5'', ''border'', ''border-transparent'']"
  "class_names ''truncate text-sm max-w-full overflow-hidden whitespace-nowrap'' =
     [''truncate'', ''text-sm'', ''max-w-full'', ''overflow-hidden'', ''whitespace-nowrap'']"
  by (simp_all add: class_names_def)

section \<open>The classes, texts and attributes of each renderer\<close>

lemmas tree_defs = render_defs cell_value_def Let_def classes_def

lemma classes_text_cell [render_view]:
  "classes (text_cell u p) =
     [''w-full'', ''h-full'', ''flex'', ''items-center'', ''truncate''] @
     (if isEmptyValue u (cell_value p) then [''text-muted-foreground'', ''italic'', ''pr-1'']
      else [''dark:text-zinc-300''])"
  by (simp add: tree_defs)

lemma classes_boolean [render_view]:
  "classes (boolean u p) =
     [''w-full'', ''h-full'', ''flex'', ''items-center'', ''justify-start'',
      ''py-0.5'', ''px-1.5'', ''border'', ''border-transparent''] @
     (if isEmptyValue u (cell_value p) then [''text-muted-foreground'', ''italic''] else [])"
  by (simp add: tree_defs)

lemma classes_datetime [render_view]:
  "classes (datetime u p) =
     [''w-full'', ''h-full'', ''flex'', ''items-center'', ''truncate''] @
     (if isEmptyValue u (cell_value p) then [''text-muted-foreground'', ''italic'', ''pr-1'']
      else if formatValueForDisplay u (cell_value p) DATETIME = ''Invalid date time''
      then [''text-red-500'']
      else [''text-black'', ''dark:text-zinc-300''])"
  by (simp add: tree_defs)

lemma classes_date [render_view]:
  "classes (date u p) =
     [''w-full'', ''h-full'', ''flex'', ''items-center'', ''truncate''] @
     (if isEmptyValue u (cell_value p) then [''text-muted-foreground'', ''italic'', ''pr-1'']
      else if formatValueForDisplay u (cell_value p) DATE = ''Invalid date''
      then [''text-red-500'']
      else [''text-black'', ''dark:text-zinc-300''])"
  by (simp add: tree_defs)

lemma classes_json [render_view]:
  "classes (json u p) =
     [''w-full'', ''h-full'', ''flex'', ''items-center'',
      ''truncate'', ''text-sm'', ''max-w-full'', ''overflow-hidden'', ''whitespace-nowrap''] @
     (if isEmptyValue u (cell_value p) then [''text-muted-foreground'', ''italic'', ''pr-1'']
      else if formatValueForDisplay u (cell_value p) JSON = ''Invalid JSON''
      then [''text-red-500'']
      else [''text-black'', ''dark:text-zinc-300''])"
  by (simp add: tree_defs)

lemma classes_id_cell [render_view]: "classes (id_cell p) = []"
  by (simp add: tree_defs)

lemma classes_email [render_view]:
  "classes (email u p) =
     [''text-sm'', ''truncate''] @
     (if isEmptyValue u (cell_value p) then [''text-muted-foreground'', ''italic'', ''pr-1'']
      else [''text-gray-800'', ''font-medium'', ''dark:text-zinc-300''])"
  by (simp add: tree_defs)

lemma texts_renderers [render_view]:
  "texts (text_cell u p) = [formatValueForDisplay u (cell_value p) STRING]"
  "texts (boolean u p) = [formatValueForDisplay u (cell_value p) BOOLEAN]"
  "texts (datetime u p) = [formatValueForDisplay u (cell_value p) DATETIME]"
  "texts (date u p) = [formatValueForDisplay u (cell_value p) DATE]"
  "texts (json u p) = [formatValueForDisplay u (cell_value p) JSON]"
  "texts (id_cell p) = []"
  "texts (email u p) = [formatValueForDisplay u (cell_value p) STRING]"
  by (simp_all add: tree_defs)

lemma titles_renderers [render_view]:
  "attrs ''title'' (text_cell u p) = [Lit (formatValueForDisplay u (cell_value p) STRING)]"
  "attrs ''title'' (boolean u p) = []"
  "attrs ''title'' (datetime u p) = [Lit (formatValueForDisplay u (cell_value p) DATETIME)]"
  "attrs ''title'' (date u p) = [Lit (formatValueForDisplay u (cell_value p) DATE)]"
  "attrs ''title'' (json u p) = [Lit (formatValueForDisplay u (cell_value p) JSON)]"
  "attrs ''title'' (id_cell p) = []"
  "attrs ''title'' (email u p) = [Lit (formatValueForDisplay u (cell_value p) STRING)]"
  by (simp_all add: tree_defs)

lemma variant_boolean [render_view]:
  "attrs ''variant'' (boolean u p) =
     [Lit (if \<not> isEmptyValue u (cell_value p) \<and> truthy (cell_value p)
           then ''default'' else ''secondary'')]"
  by (simp add: tree_defs)

lemma variants_renderers [render_view]:
  "attrs ''variant'' (text_cell u p) = []"
  "attrs ''variant'' (datetime u p) = []"
  "attrs ''variant'' (date u p) = []"
  "attrs ''variant'' (json u p) = []"
  "attrs ''variant'' (id_cell p) = []"
  "attrs ''variant'' (email u p) = []"
  by (simp_all add: tree_defs)

lemma tags_renderers:
  "tags (text_cell u p) = [''div'', ''span'']"
  "tags (boolean u p) = [''div'', ''Badge'']"
  "tags (datetime u p) = [''div'', ''span'']"
  "tags (date u p) = [''div'', ''span'']"
  "tags (json u p) = [''div'', ''span'']"
  "tags (id_cell p) = [''IdCell'']"
  "tags (email u p) = [''span'']"
  by (simp_all add: tree_defs)

lemmas view_defs = view_of_def view_spec_def tone_of_def

text \<open>A renderer reads its properties through the cell value only.\<close>

lemma renderers_cell_value:
  "text_cell u p = text_cell u (demo_props [(k, cell_value p)] k)"
  "boolean u p = boolean u (demo_props [(k, cell_value p)] k)"
  "datetime u p = datetime u (demo_props [(k, cell_value p)] k)"
  "date u p = date u (demo_props [(k, cell_value p)] k)"
  "json u p = json u (demo_props [(k, cell_value p)] k)"
  "id_cell p = id_cell (demo_props [(k, cell_value p)] k)"
  "email u p = email u (demo_props [(k, cell_value p)] k)"
  by (simp_all add: tree_defs demo_props_def)

lemma cell_value_demo_props [simp]: "cell_value (demo_props r k) = get_prop r k"
  by (simp add: cell_value_def demo_props_def)

lemma demo_utils_simps [simp]:
  "isEmptyValue demo_utils v \<longleftrightarrow> v = JNull \<or> v = JUndefined"
  "formatValueForDisplay demo_utils v t =
     (if v = JNull \<or> v = JUndefined then ''null'' else js_String v)"
  by (simp_all add: demo_utils_def)

section \<open>Properties of the renderers\<close>

text \<open>
  C1 (refinement). Every renderer that formats its value shows what \<open>view_spec\<close>
  prescribes for its kind: the display text as text and tooltip (a boolean badge
  has no tooltip), the muted tone for an empty value, the failed tone for a value
  that is not empty and whose display text is the failure text of the kind, and
  for a boolean the badge variant.
\<close>

theorem render_refines_view:
  "column_type k = Some t \<Longrightarrow>
   view_of (createDefaultCellRenderer u k p) =
     view_spec k (isEmptyValue u (cell_value p)) (truthy (cell_value p))
       (formatValueForDisplay u (cell_value p) t)"
  by (cases k) (auto simp: view_defs render_view)

theorem render_refines_view_witness:
  "view_of (createDefaultCellRenderer demo_utils KDatetime
      (demo_props [(''id'', JNum 7), (''created_at'', JStr ''Invalid date time'')] ''created_at'')) =
   \<lparr>shown = ''Invalid date time'', tooltip = Some ''Invalid date time'', tone = Failed,
    variant = None\<rparr>"
  using render_refines_view [of KDatetime DATETIME demo_utils
      "demo_props [(''id'', JNum 7), (''created_at'', JStr ''Invalid date time'')] ''created_at''"]
  by (simp add: view_spec_def)

text \<open>
  C2 (safety). No renderer ever gives a cell both the class of placeholder text and
  the red class of a failure: the test for an empty value comes first, whatever the
  utilities answer.
\<close>

theorem muted_and_failed_exclusive:
  "\<not> (''text-muted-foreground'' \<in> set (classes (createDefaultCellRenderer u k p)) \<and>
      ''text-red-500'' \<in> set (classes (createDefaultCellRenderer u k p)))"
  by (cases k) (simp_all add: render_view)

text \<open>
  C3 (functional). A cell is red exactly when its value is not empty and its display
  text is the failure text of its kind; only the datetime, date and json renderers
  have one, so a text, boolean, email or id cell is never red.
\<close>

theorem failed_class_iff:
  "''text-red-500'' \<in> set (classes (createDefaultCellRenderer u k p)) \<longleftrightarrow>
     \<not> isEmptyValue u (cell_value p) \<and>
     (\<exists>t. column_type k = Some t \<and>
          error_text k = Some (formatValueForDisplay u (cell_value p) t))"
  by (cases k) (simp_all add: render_view)

text \<open>
  C4 (functional). A cell has the class of placeholder text exactly when its value
  is empty and its renderer is not the id renderer, which never asks whether the
  value is empty.
\<close>

theorem muted_class_iff:
  "''text-muted-foreground'' \<in> set (classes (createDefaultCellRenderer u k p)) \<longleftrightarrow>
     k \<noteq> KId \<and> isEmptyValue u (cell_value p)"
  by (cases k) (simp_all add: render_view)

text \<open>
  C5 (error). The id renderer prints whatever \<open>row[column.key]\<close> is: for a row that
  has no such key it passes the text \<open>undefined\<close> to the id cell.
\<close>

theorem id_cell_missing_key:
  "key (column p) \<notin> fst ` set (row p) \<Longrightarrow>
   createDefaultCellRenderer u KId p = Element ''IdCell'' [(''value'', Lit ''undefined'')] []"
  by (simp add: id_cell_def get_prop_absent)

theorem id_cell_missing_key_witness:
  "createDefaultCellRenderer demo_utils KId (demo_props [(''name'', JStr ''Ada'')] ''id'') =
   Element ''IdCell'' [(''value'', Lit ''undefined'')] []"
  using id_cell_missing_key [of "demo_props [(''name'', JStr ''Ada'')] ''id''" demo_utils]
  by (simp add: demo_props_def)

text \<open>
  C6 (roundtrip). Printing loses nothing of a numeric id: two rows with numeric ids
  get the same id cell exactly when the ids are equal. (The model prints every
  integer in plain decimal, as JavaScript does below \<open>1e21\<close>; from there on JavaScript
  prints an exponent form, which the model does not have.)
\<close>

theorem id_cell_distinct_numbers:
  "cell_value p = JNum a \<Longrightarrow> cell_value q = JNum b \<Longrightarrow>
   createDefaultCellRenderer u KId p = createDefaultCellRenderer u KId q \<longleftrightarrow> a = b"
  by (simp add: id_cell_def cell_value_def)

theorem id_cell_distinct_numbers_witness:
  "createDefaultCellRenderer demo_utils KId (demo_props [(''id'', JNum 17)] ''id'') \<noteq>
   createDefaultCellRenderer demo_utils KId (demo_props [(''id'', JNum 71)] ''id'')"
  using id_cell_distinct_numbers [of "demo_props [(''id'', JNum 17)] ''id''" 17
      "demo_props [(''id'', JNum 71)] ''id''" 71 demo_utils]
  by simp

text \<open>
  C7 (invariant). A renderer reads its row through \<open>row[column.key]\<close> only: two cells
  with the same value are rendered the same, whatever else their rows hold and
  whatever their columns are called.
\<close>

theorem renderer_reads_cell_only:
  "cell_value p = cell_value q \<Longrightarrow>
   createDefaultCellRenderer u k p = createDefaultCellRenderer u k q"
  by (cases k)
    (simp_all add: renderers_cell_value [where p = p and k = "[]"]
       renderers_cell_value [where p = q and k = "[]"])

theorem renderer_reads_cell_only_witness:
  "createDefaultCellRenderer demo_utils KJson
     (demo_props [(''a'', JNum 1), (''b'', JStr ''x'')] ''b'') =
   createDefaultCellRenderer demo_utils KJson
     (demo_props [(''c'', JStr ''x''), (''d'', JNull)] ''c'')"
  using renderer_reads_cell_only [of "demo_props [(''a'', JNum 1), (''b'', JStr ''x'')] ''b''"
      "demo_props [(''c'', JStr ''x''), (''d'', JNull)] ''c''" demo_utils KJson]
  by simp

text \<open>
  C8 (equivalence). An email cell and a text cell of the same value look the same:
  same text, same tooltip, same tone. They differ in layout classes only.
\<close>

theorem email_shows_as_text:
  "view_of (createDefaultCellRenderer u KEmail p) = view_of (createDefaultCellRenderer u KText p)"
  by (simp add: view_defs render_view)

text \<open>
  C9 (safety). A renderer consults the utilities about its own cell only: utilities
  that agree on the value of the cell give the same tree.
\<close>

theorem renderer_utils_agree:
  "isEmptyValue u (cell_value p) = isEmptyValue u' (cell_value p) \<Longrightarrow>
   \<forall>t. formatValueForDisplay u (cell_value p) t = formatValueForDisplay u' (cell_value p) t \<Longrightarrow>
   createDefaultCellRenderer u k p = createDefaultCellRenderer u' k p"
  by (cases k) (simp_all add: render_defs cell_value_def)

theorem renderer_utils_agree_witness:
  "createDefaultCellRenderer demo_utils KDate (demo_props [(''day'', JStr ''x'')] ''day'') =
   createDefaultCellRenderer
     (demo_utils\<lparr>isEmptyValue := \<lambda>v. v = JNull \<or> v = JUndefined \<or> v = JNum 0\<rparr>)
     KDate (demo_props [(''day'', JStr ''x'')] ''day'')"
  using renderer_utils_agree [of demo_utils "demo_props [(''day'', JStr ''x'')] ''day''"
      "demo_utils\<lparr>isEmptyValue := \<lambda>v. v = JNull \<or> v = JUndefined \<or> v = JNum 0\<rparr>" KDate]
  by simp

text \<open>
  The id renderer cannot tell the number 1 from the string \<open>1\<close>: both print the same.
\<close>

lemma id_cell_number_string_collide:
  "id_cell (demo_props [(''id'', JNum 1)] ''id'') = id_cell (demo_props [(''id'', JStr ''1'')] ''id'')"
  by (simp add: id_cell_def demo_props_def js_defs nat_digits.simps)

end
