(* ===== verification/ChatTypes.thy ===== *)
theory ChatTypes
  imports JsValue
begin

text \<open>
  The data model of the tool-calling chat service (section 3 of the specification):
  roles, tool calls, chat messages, tool definitions, tool choices, requests and
  responses. The types are those of values that have passed validation; the
  validators of theory \<open>ToolSchemas\<close> produce them from JavaScript values, and the
  encoders of the same theory write them back.

  An optional field is an \<open>option\<close>: \<open>None\<close> stands for a field that is absent or
  \<open>undefined\<close>, which the sources do not tell apart. A field that may be \<open>null\<close> is a
  \<open>nullable\<close>. Field names that clash with a constant of the library or with a
  field of another record carry a prefix.
\<close>

section \<open>Types\<close>

datatype role = System | User | Assistant | Tool

datatype 'a nullable = Null | Value 'a

text \<open>\<open>function: { name, arguments }\<close> of a tool call.\<close>

record function_call =
  fn_name :: string
  fn_arguments :: string

text \<open>\<open>{ id, type, function }\<close>: a tool call; \<open>type\<close> is the text \<open>function\<close> in a valid one.\<close>

record tool_call =
  call_id :: string
  call_type :: string
  call_function :: function_call

record chat_message =
  role :: role
  content :: "string nullable"
  tool_call_id :: "string option"
  tool_calls :: "tool_call list option"

text \<open>\<open>{ name, description?, parameters? }\<close>: the definition of a tool.\<close>

record tool_definition =
  def_name :: string
  def_description :: "jsval option"
  def_parameters :: "jsval option"

text \<open>\<open>{ type: "function", function }\<close>: a tool offered to the model.\<close>

record tool =
  tool_type :: string
  tool_function :: tool_definition

datatype tool_choice = Auto | NoTool | Required | Pinned string

record chat_completion_request =
  req_model :: string
  req_messages :: "chat_message list"
  req_tools :: "tool list option"
  req_tool_choice :: "tool_choice option"
  req_parallel_tool_calls :: "bool option"

record chat_completion_response =
  resp_text :: string
  resp_tool_calls :: "tool_call list option"
  resp_metadata :: js_object

section \<open>Names of the roles\<close>

fun role_name :: "role \<Rightarrow> string" where
  "role_name System = ''system''"
| "role_name User = ''user''"
| "role_name Assistant = ''assistant''"
| "role_name Tool = ''tool''"

definition role_of_name :: "string \<Rightarrow> role option" where
  "role_of_name s =
     (if s = ''system'' then Some System
      else if s = ''user'' then Some User
      else if s = ''assistant'' then Some Assistant
      else if s = ''tool'' then Some Tool
      else None)"

lemma role_of_name_role_name [simp]: "role_of_name (role_name r) = Some r"
  by (cases r) (simp_all add: role_of_name_def)

lemma role_of_name_Some_iff: "role_of_name s = Some r \<longleftrightarrow> s = role_name r"
  by (cases r) (auto simp: role_of_name_def split: if_splits)

lemma role_name_inject [simp]: "role_name r = role_name r' \<longleftrightarrow> r = r'"
  by (metis option.inject role_of_name_role_name)

lemma role_of_name_literals [simp]:
  "role_of_name ''system'' = Some System"
  "role_of_name ''user'' = Some User"
  "role_of_name ''assistant'' = Some Assistant"
  "role_of_name ''tool'' = Some Tool"
  by (simp_all add: role_of_name_def)

section \<open>Well-formed messages\<close>

text \<open>
  The shape a message has on the wire: a tool message carries the id of the call it
  answers and nothing else; only an assistant message carries tool calls; no other
  message carries a tool field.
\<close>

definition wire_shaped :: "chat_message \<Rightarrow> bool" where
  "wire_shaped m \<longleftrightarrow>
     (if role m = Tool then tool_call_id m \<noteq> None \<and> tool_calls m = None
      else tool_call_id m = None \<and> (role m = Assistant \<or> tool_calls m = None))"

end
