(* ===== verification/FormatMessages.thy ===== *)
theory FormatMessages
  imports ChatTypes
begin

text \<open>
  The message formatter of the chat completion service (section 4.1 of the
  specification). Its code is not part of the sources; it is modelled from the
  specification, and the format suite of theory \<open>FormatTests\<close> is what the sources
  say about it.

  \<open>formatMessages messages systemPrompt\<close> turns the messages of a conversation into
  the messages sent to the provider: a system message first when a prompt that is
  not empty is given, then one message per input message in order. A tool message
  keeps its role and content and always carries a \<open>tool_call_id\<close>, the empty text
  when the input has none; an assistant message whose \<open>tool_calls\<close> are present
  keeps them; every other message keeps its role and content only.
\<close>

section \<open>The formatter\<close>

type_synonym formatter = "chat_message list \<Rightarrow> string option \<Rightarrow> chat_message list"

definition system_message :: "string \<Rightarrow> chat_message" where
  "system_message s = \<lparr>role = System, content = Value s, tool_call_id = None, tool_calls = None\<rparr>"

text \<open>The system messages that a prompt contributes: one, or none.\<close>

definition prompt_prefix :: "string option \<Rightarrow> chat_message list" where
  "prompt_prefix systemPrompt =
     (case systemPrompt of
        None \<Rightarrow> []
      | Some s \<Rightarrow> if s \<noteq> [] then [system_message s] else [])"

definition formatMessage :: "chat_message \<Rightarrow> chat_message" where
  "formatMessage msg =
     (if role msg = Tool then
        \<lparr>role = Tool, content = content msg,
         tool_call_id = Some (case tool_call_id msg of None \<Rightarrow> [] | Some i \<Rightarrow> i),
         tool_calls = None\<rparr>
      else if role msg = Assistant \<and> tool_calls msg \<noteq> None then
        \<lparr>role = Assistant, content = content msg, tool_call_id = None,
         tool_calls = tool_calls msg\<rparr>
      else
        \<lparr>role = role msg, content = content msg, tool_call_id = None, tool_calls = None\<rparr>)"

definition formatMessages :: formatter where
  "formatMessages messages systemPrompt = prompt_prefix systemPrompt @ map formatMessage messages"

lemmas [chat_defs] = system_message_def prompt_prefix_def formatMessage_def formatMessages_def

section \<open>One message\<close>

lemma role_formatMessage [simp]: "role (formatMessage m) = role m"
  by (simp add: formatMessage_def)

lemma content_formatMessage [simp]: "content (formatMessage m) = content m"
  by (simp add: formatMessage_def)

lemma tool_call_id_formatMessage:
  "tool_call_id (formatMessage m) =
     (if role m = Tool then Some (case tool_call_id m of None \<Rightarrow> [] | Some i \<Rightarrow> i) else None)"
  by (simp add: formatMessage_def)

lemma tool_calls_formatMessage:
  "tool_calls (formatMessage m) = (if role m = Assistant then tool_calls m else None)"
  by (auto simp: formatMessage_def)

lemmas formatMessage_fields =
  role_formatMessage content_formatMessage tool_call_id_formatMessage tool_calls_formatMessage

text \<open>Every formatted message has the shape of a message on the wire.\<close>

lemma wire_shaped_formatMessage [simp]: "wire_shaped (formatMessage m)"
  by (simp add: wire_shaped_def formatMessage_fields)

text \<open>A message of that shape is left as it is; so formatting twice is formatting once.\<close>

lemma formatMessage_wire_shaped: "wire_shaped m \<Longrightarrow> formatMessage m = m"
  by (cases m) (auto simp: wire_shaped_def formatMessage_def split: if_splits)

lemma formatMessage_idem [simp]: "formatMessage (formatMessage m) = formatMessage m"
  by (simp add: formatMessage_wire_shaped)

lemma formatMessage_fixed_iff: "formatMessage m = m \<longleftrightarrow> wire_shaped m"
  by (metis formatMessage_wire_shaped wire_shaped_formatMessage)

lemma wire_shaped_system_message [simp]: "wire_shaped (system_message s)"
  by (simp add: wire_shaped_def system_message_def)

section \<open>A conversation\<close>

lemma prompt_prefix_simps [simp]:
  "prompt_prefix None = []"
  "prompt_prefix (Some []) = []"
  "s \<noteq> [] \<Longrightarrow> prompt_prefix (Some s) = [system_message s]"
  by (simp_all add: prompt_prefix_def)

lemma length_prompt_prefix: "length (prompt_prefix sp) = (if sp = None \<or> sp = Some [] then 0 else 1)"
  by (auto simp: prompt_prefix_def split: option.splits)

lemma formatMessages_no_prompt [simp]: "formatMessages ms None = map formatMessage ms"
  by (simp add: formatMessages_def)

lemma formatMessages_prompt:
  "formatMessages ms sp = prompt_prefix sp @ formatMessages ms None"
  by (simp add: formatMessages_def)

lemma formatMessages_Some:
  "s \<noteq> [] \<Longrightarrow> formatMessages ms (Some s) = system_message s # formatMessages ms None"
  by (simp add: formatMessages_def)

lemma length_formatMessages:
  "length (formatMessages ms sp) = length ms + (if sp = None \<or> sp = Some [] then 0 else 1)"
  by (simp add: formatMessages_def length_prompt_prefix)

lemma formatMessages_append:
  "formatMessages (xs @ ys) sp = formatMessages xs sp @ formatMessages ys None"
  by (simp add: formatMessages_def)

lemma map_role_formatMessages: "map role (formatMessages ms None) = map role ms"
  by simp

lemma map_content_formatMessages: "map content (formatMessages ms None) = map content ms"
  by simp

lemma nth_formatMessages:
  "i < length ms \<Longrightarrow> formatMessages ms None ! i = formatMessage (ms ! i)"
  by simp

lemma wire_shaped_formatMessages: "list_all wire_shaped (formatMessages ms sp)"
  by (auto simp: formatMessages_def prompt_prefix_def list_all_iff split: option.splits)

lemma formatMessages_wire_shaped:
  "list_all wire_shaped ms \<Longrightarrow> formatMessages ms None = ms"
  by (induction ms) (simp_all add: formatMessage_wire_shaped)

lemma formatMessages_idem:
  "formatMessages (formatMessages ms sp) None = formatMessages ms sp"
  by (rule formatMessages_wire_shaped) (rule wire_shaped_formatMessages)

section \<open>The contract\<close>

text \<open>
  What the specification promises of any formatter, read so that a message gets
  the fields of its role and no other: the prompt contributes its prefix; without
  a prompt the result has one message per input message; and position by position
  the role and content are kept, a tool message gets its (defaulted) id and no
  calls, an assistant message keeps the calls it has and gets no id, any other
  message gets neither. Read so, the contract fixes every field of every message:
  it is met by \<open>formatMessages\<close> and by no other formatter (\<open>meets_contract_iff\<close>).
  The contract that leaves open what section 4.1 leaves open follows in the next
  section.
\<close>

definition formats_like :: "chat_message \<Rightarrow> chat_message \<Rightarrow> bool" where
  "formats_like m r \<longleftrightarrow>
     role r = role m \<and> content r = content m \<and>
     (if role m = Tool
      then tool_call_id r = Some (case tool_call_id m of None \<Rightarrow> [] | Some i \<Rightarrow> i) \<and>
           tool_calls r = None
      else tool_call_id r = None \<and>
           tool_calls r = (if role m = Assistant then tool_calls m else None))"

definition meets_contract :: "formatter \<Rightarrow> bool" where
  "meets_contract fm \<longleftrightarrow>
     (\<forall>ms sp. fm ms sp = prompt_prefix sp @ fm ms None) \<and>
     (\<forall>ms. list_all2 formats_like ms (fm ms None))"

lemma formats_like_formatMessage: "formats_like m (formatMessage m)"
  by (simp add: formats_like_def formatMessage_fields)

lemma formats_like_unique: "formats_like m r \<Longrightarrow> r = formatMessage m"
  by (intro chat_message.equality)
    (simp_all add: formats_like_def formatMessage_fields split: if_splits)

lemma formats_like_iff: "formats_like m r \<longleftrightarrow> r = formatMessage m"
  using formats_like_formatMessage formats_like_unique by blast

lemma list_all2_formats_like_iff: "list_all2 formats_like ms rs \<longleftrightarrow> rs = map formatMessage ms"
  by (induction ms arbitrary: rs) (auto simp: list_all2_Cons1 formats_like_iff)

text \<open>The formatter meets the contract, and it is the only one that does.\<close>

lemma formatMessages_meets_contract: "meets_contract formatMessages"
  by (simp add: meets_contract_def list_all2_formats_like_iff formatMessages_def)

lemma meets_contract_unique: "meets_contract fm \<Longrightarrow> fm = formatMessages"
proof (intro ext)
  fix ms sp
  assume "meets_contract fm"
  then have prefix: "fm ms sp = prompt_prefix sp @ fm ms None"
    and each: "list_all2 formats_like ms (fm ms None)"
    unfolding meets_contract_def by blast+
  from each have "fm ms None = map formatMessage ms"
    by (simp only: list_all2_formats_like_iff)
  with prefix show "fm ms sp = formatMessages ms sp"
    by (simp only: formatMessages_def)
qed

lemma meets_contract_iff: "meets_contract fm \<longleftrightarrow> fm = formatMessages"
  using formatMessages_meets_contract meets_contract_unique by blast

section \<open>The contract under either reading\<close>

text \<open>
  The contract above takes one side where section 4.1 has two. Of the messages of
  other roles it says that they pass "with only role and content" and also that "no
  fields are dropped", and malformed shapes are "passed through unchanged"; and it
  does not say what becomes of the \<open>tool_calls\<close> of a tool message or of the
  \<open>tool_call_id\<close> of an assistant message. \<open>formatMessage\<close> drops such a field. The
  contract that holds under either reading leaves it open: a field that the role of
  a message does not use is dropped or kept; everything else is as before. Many
  formatters meet it, \<open>formatMessages\<close> and \<open>keeps_fields\<close> among them.
\<close>

definition kept_or_dropped :: "'a option \<Rightarrow> 'a option \<Rightarrow> bool" where
  "kept_or_dropped x y \<longleftrightarrow> y = None \<or> y = x"

definition formats_either :: "chat_message \<Rightarrow> chat_message \<Rightarrow> bool" where
  "formats_either m r \<longleftrightarrow>
     role r = role m \<and> content r = content m \<and>
     (if role m = Tool
      then tool_call_id r = Some (case tool_call_id m of None \<Rightarrow> [] | Some i \<Rightarrow> i)
      else kept_or_dropped (tool_call_id m) (tool_call_id r)) \<and>
     (if role m = Assistant
      then tool_calls r = tool_calls m
      else kept_or_dropped (tool_calls m) (tool_calls r))"

definition meets_either_reading :: "formatter \<Rightarrow> bool" where
  "meets_either_reading fm \<longleftrightarrow>
     (\<forall>ms sp. fm ms sp = prompt_prefix sp @ fm ms None) \<and>
     (\<forall>ms. list_all2 formats_either ms (fm ms None))"

text \<open>A message that carries no field but those its role uses: the readings agree on it.\<close>

definition uses_own_fields :: "chat_message \<Rightarrow> bool" where
  "uses_own_fields m \<longleftrightarrow>
     (role m = Tool \<or> tool_call_id m = None) \<and> (role m = Assistant \<or> tool_calls m = None)"

text \<open>The formatter of the other reading: nothing is dropped, a tool message gets its id.\<close>

definition pass_through :: "chat_message \<Rightarrow> chat_message" where
  "pass_through m =
     (if role m = Tool
      then m\<lparr>tool_call_id := Some (case tool_call_id m of None \<Rightarrow> [] | Some i \<Rightarrow> i)\<rparr>
      else m)"

definition keeps_fields :: formatter where
  "keeps_fields ms sp = prompt_prefix sp @ map pass_through ms"

lemma kept_or_dropped_simps [simp]:
  "kept_or_dropped x None" "kept_or_dropped x x" "kept_or_dropped None y \<longleftrightarrow> y = None"
  by (auto simp: kept_or_dropped_def)

lemma formats_like_either: "formats_like m r \<Longrightarrow> formats_either m r"
  by (auto simp: formats_like_def formats_either_def split: if_splits)

lemma formats_either_pass_through: "formats_either m (pass_through m)"
  by (simp add: formats_either_def pass_through_def)

lemma formats_either_own_fields:
  "uses_own_fields m \<Longrightarrow> formats_either m r \<longleftrightarrow> r = formatMessage m"
proof
  assume own: "uses_own_fields m" and r: "formats_either m r"
  then have "formats_like m r"
    by (auto simp: formats_either_def formats_like_def uses_own_fields_def split: if_splits)
  then show "r = formatMessage m" by (rule formats_like_unique)
next
  assume "r = formatMessage m"
  then show "formats_either m r"
    by (simp add: formats_like_either formats_like_formatMessage)
qed

lemma list_all2_formats_either_own_fields:
  "list_all uses_own_fields ms \<Longrightarrow> list_all2 formats_either ms rs \<Longrightarrow> rs = map formatMessage ms"
  by (induction ms arbitrary: rs) (auto simp: list_all2_Cons1 formats_either_own_fields)

text \<open>The contract of the first reading is the stronger one.\<close>

lemma meets_contract_either: "meets_contract fm \<Longrightarrow> meets_either_reading fm"
  by (simp add: meets_contract_iff meets_either_reading_def formatMessages_def
      list_all2_conv_all_nth formats_like_either formats_like_formatMessage)

lemma keeps_fields_meets: "meets_either_reading keeps_fields"
  by (simp add: meets_either_reading_def keeps_fields_def list_all2_conv_all_nth
      formats_either_pass_through)

text \<open>
  On messages that use their own fields only, every formatter of either reading
  is the formatter of the model.
\<close>

lemma meets_either_reading_own_fields:
  assumes "meets_either_reading fm" "list_all uses_own_fields ms"
  shows "fm ms sp = formatMessages ms sp"
proof -
  from assms(1) have prefix: "fm ms sp = prompt_prefix sp @ fm ms None"
    and each: "list_all2 formats_either ms (fm ms None)"
    unfolding meets_either_reading_def by blast+
  from assms(2) each have "fm ms None = map formatMessage ms"
    by (rule list_all2_formats_either_own_fields)
  with prefix show ?thesis
    by (simp only: formatMessages_def)
qed

end
