(* ===== verification/FormatTests.thy ===== *)
theory FormatTests
  imports FormatMessages
begin

text \<open>
  The format suite, \<open>src/backend/tests/unit/ai-tool-calling-format.test.ts\<close>.

  Each \<open>it\<close> block is a test: the messages and the prompt it gives to the formatter
  under test, and what it expects of the result. \<open>toHaveLength\<close> is the
  length of the result; \<open>result[i]\<close> is guarded indexing, since reading a field of a
  missing element fails the test; \<open>toEqual\<close> on objects is equality of records,
  because it does not tell an absent field from an \<open>undefined\<close> one; \<open>toBe\<close> on a
  text that must be present is equality with \<open>Some\<close> of it; \<open>toBeNull\<close> is \<open>Null\<close>;
  \<open>toBeDefined\<close> is not being \<open>None\<close>. The mocks of the service's collaborators
  (lines 5 to 16) have no counterpart: the formatter does not call them.
\<close>

section \<open>Fixtures\<close>

text \<open>
  The payload \<open>{"temp":"22\<degree>C"}\<close> of the tool message; the degree sign is
  two bytes in UTF-8.
\<close>

definition temp_payload :: string where
  "temp_payload = ''{\"temp\":\"22'' @ [CHR 0xC2, CHR 0xB0] @ ''C\"}''"

definition sunny_payload :: string where
  "sunny_payload = ''{\"temp\":\"22'' @ [CHR 0xC2, CHR 0xB0] @ ''C\",\"condition\":\"sunny\"}''"

definition tokyo_arguments :: string where
  "tokyo_arguments = ''{\"city\":\"Tokyo\"}''"

section \<open>The tests\<close>

record format_test =
  given_messages :: "chat_message list"
  given_prompt :: "string option"
  expectation :: "chat_message list \<Rightarrow> bool"

text \<open>Running a test: \<open>result = service.formatMessages(messages, prompt)\<close>, then the expectations.\<close>

definition run_format_test :: "formatter \<Rightarrow> format_test \<Rightarrow> bool" where
  "run_format_test fm t = expectation t (fm (given_messages t) (given_prompt t))"

definition formats_tool_role_messages_with_tool_call_id :: format_test where
  "formats_tool_role_messages_with_tool_call_id =
     \<lparr>given_messages =
        [\<lparr>role = Tool, content = Value temp_payload, tool_call_id = Some ''call_abc123'',
          tool_calls = None\<rparr>],
      given_prompt = None,
      expectation = (\<lambda>result.
        length result = 1 \<and>
        at result 0 (\<lambda>r. r = \<lparr>role = Tool, content = Value temp_payload,
                                tool_call_id = Some ''call_abc123'', tool_calls = None\<rparr>))\<rparr>"

definition formats_assistant_messages_with_tool_calls :: format_test where
  "formats_assistant_messages_with_tool_calls =
     \<lparr>given_messages =
        [\<lparr>role = Assistant, content = Null, tool_call_id = None,
          tool_calls = Some [\<lparr>call_id = ''call_abc123'', call_type = ''function'',
            call_function = \<lparr>fn_name = ''get_weather'', fn_arguments = tokyo_arguments\<rparr>\<rparr>]\<rparr>],
      given_prompt = None,
      expectation = (\<lambda>result.
        length result = 1 \<and>
        at result 0 (\<lambda>r. role r = Assistant) \<and>
        at result 0 (\<lambda>r. content r = Null) \<and>
        at result 0 (\<lambda>r. tool_calls r =
          Some [\<lparr>call_id = ''call_abc123'', call_type = ''function'',
            call_function = \<lparr>fn_name = ''get_weather'', fn_arguments = tokyo_arguments\<rparr>\<rparr>]))\<rparr>"

definition formats_regular_user_messages_unchanged :: format_test where
  "formats_regular_user_messages_unchanged =
     \<lparr>given_messages =
        [\<lparr>role = User, content = Value ''Hello'', tool_call_id = None, tool_calls = None\<rparr>],
      given_prompt = None,
      expectation = (\<lambda>result.
        length result = 1 \<and>
        at result 0 (\<lambda>r. r = \<lparr>role = User, content = Value ''Hello'', tool_call_id = None,
                                tool_calls = None\<rparr>))\<rparr>"

definition prepends_system_prompt_when_provided :: format_test where
  "prepends_system_prompt_when_provided =
     \<lparr>given_messages =
        [\<lparr>role = User, content = Value ''Hi'', tool_call_id = None, tool_calls = None\<rparr>],
      given_prompt = Some ''You are helpful.'',
      expectation = (\<lambda>result.
        length result = 2 \<and>
        at result 0 (\<lambda>r. r = \<lparr>role = System, content = Value ''You are helpful.'',
                                tool_call_id = None, tool_calls = None\<rparr>) \<and>
        at result 1 (\<lambda>r. r = \<lparr>role = User, content = Value ''Hi'', tool_call_id = None,
                                tool_calls = None\<rparr>))\<rparr>"

definition handles_a_full_multi_turn_tool_calling_conversation :: format_test where
  "handles_a_full_multi_turn_tool_calling_conversation =
     \<lparr>given_messages =
        [\<lparr>role = User, content = Value ''What is the weather in Tokyo?'',
          tool_call_id = None, tool_calls = None\<rparr>,
         \<lparr>role = Assistant, content = Null, tool_call_id = None,
          tool_calls = Some [\<lparr>call_id = ''call_1'', call_type = ''function'',
            call_function = \<lparr>fn_name = ''get_weather'', fn_arguments = tokyo_arguments\<rparr>\<rparr>]\<rparr>,
         \<lparr>role = Tool, content = Value sunny_payload, tool_call_id = Some ''call_1'',
          tool_calls = None\<rparr>],
      given_prompt = None,
      expectation = (\<lambda>result.
        length result = 3 \<and>
        at result 0 (\<lambda>r. role r = User) \<and>
        at result 1 (\<lambda>r. role r = Assistant) \<and>
        at result 1 (\<lambda>r. tool_calls r \<noteq> None) \<and>
        at result 2 (\<lambda>r. role r = Tool) \<and>
        at result 2 (\<lambda>r. tool_call_id r = Some ''call_1''))\<rparr>"

definition handles_tool_message_with_empty_tool_call_id :: format_test where
  "handles_tool_message_with_empty_tool_call_id =
     \<lparr>given_messages =
        [\<lparr>role = Tool, content = Value ''result'', tool_call_id = None, tool_calls = None\<rparr>],
      given_prompt = None,
      expectation = (\<lambda>result.
        at result 0 (\<lambda>r. role r = Tool) \<and>
        at result 0 (\<lambda>r. tool_call_id r = Some []))\<rparr>"

text \<open>The \<open>describe\<close> block: its tests in order. A formatter passes when every test does.\<close>

definition formatMessages_suite :: "format_test list" where
  "formatMessages_suite =
     [formats_tool_role_messages_with_tool_call_id,
      formats_assistant_messages_with_tool_calls,
      formats_regular_user_messages_unchanged,
      prepends_system_prompt_when_provided,
      handles_a_full_multi_turn_tool_calling_conversation,
      handles_tool_message_with_empty_tool_call_id]"

definition passes_format_suite :: "formatter \<Rightarrow> bool" where
  "passes_format_suite fm = list_all (run_format_test fm) formatMessages_suite"

lemmas format_tests [test_defs] =
  formats_tool_role_messages_with_tool_call_id_def
  formats_assistant_messages_with_tool_calls_def
  formats_regular_user_messages_unchanged_def
  prepends_system_prompt_when_provided_def
  handles_a_full_multi_turn_tool_calling_conversation_def
  handles_tool_message_with_empty_tool_call_id_def

section \<open>What the suite observes\<close>

text \<open>
  The calls that the suite makes: the arguments of each test, in order. A test
  looks at the result of its call only, so formatters that agree on these calls
  pass or fail together.
\<close>

definition suite_inputs :: "(chat_message list \<times> string option) list" where
  "suite_inputs = map (\<lambda>t. (given_messages t, given_prompt t)) formatMessages_suite"

lemma run_format_test_cong:
  "fm (given_messages t) (given_prompt t) = fm' (given_messages t) (given_prompt t) \<Longrightarrow>
   run_format_test fm t = run_format_test fm' t"
  by (simp add: run_format_test_def)

lemma passes_format_suite_cong:
  "list_all (\<lambda>(ms, sp). fm ms sp = fm' ms sp) suite_inputs \<Longrightarrow>
   passes_format_suite fm = passes_format_suite fm'"
  unfolding passes_format_suite_def suite_inputs_def list_all_iff
  by (auto simp: run_format_test_def)

lemma list_all_suite_inputs:
  "list_all P suite_inputs \<longleftrightarrow>
     P (given_messages formats_tool_role_messages_with_tool_call_id, None) \<and>
     P (given_messages formats_assistant_messages_with_tool_calls, None) \<and>
     P (given_messages formats_regular_user_messages_unchanged, None) \<and>
     P (given_messages prepends_system_prompt_when_provided, Some ''You are helpful.'') \<and>
     P (given_messages handles_a_full_multi_turn_tool_calling_conversation, None) \<and>
     P (given_messages handles_tool_message_with_empty_tool_call_id, None)"
  by (simp add: suite_inputs_def formatMessages_suite_def format_tests)

section \<open>The formatter of the specification against the suite\<close>

lemma formatMessages_tests:
  "run_format_test formatMessages formats_tool_role_messages_with_tool_call_id"
  "run_format_test formatMessages formats_assistant_messages_with_tool_calls"
  "run_format_test formatMessages formats_regular_user_messages_unchanged"
  "run_format_test formatMessages prepends_system_prompt_when_provided"
  "run_format_test formatMessages handles_a_full_multi_turn_tool_calling_conversation"
  "run_format_test formatMessages handles_tool_message_with_empty_tool_call_id"
  by (simp_all add: run_format_test_def format_tests formatMessages_Some system_message_def
      formatMessage_fields formatMessage_wire_shaped wire_shaped_def)

lemmas suite_defs = passes_format_suite_def formatMessages_suite_def

text \<open>
  No message of the suite carries a field that its role does not use: no user or
  system message has a \<open>tool_call_id\<close> or \<open>tool_calls\<close>, no tool message has
  \<open>tool_calls\<close>, no assistant message a \<open>tool_call_id\<close>.
\<close>

lemma suite_inputs_own_fields:
  "list_all (\<lambda>(ms, sp). list_all uses_own_fields ms) suite_inputs"
  by (simp add: list_all_suite_inputs format_tests uses_own_fields_def)

text \<open>
  C12 (refinement). Every formatter that meets the contract of section 4.1 under
  either reading passes the format suite, whether it drops the fields that the
  role of a message does not use or keeps them: the tests ask nothing that the
  specification leaves open. The formatter that drops nothing is one of them,
  and it is not the formatter of the model.
\<close>

theorem either_reading_passes_suite: "meets_either_reading fm \<Longrightarrow> passes_format_suite fm"
proof -
  assume fm: "meets_either_reading fm"
  have "list_all (\<lambda>(ms, sp). fm ms sp = formatMessages ms sp) suite_inputs"
    using suite_inputs_own_fields
    by (simp only: list_all_suite_inputs split_conv meets_either_reading_own_fields [OF fm]
        simp_thms)
  from passes_format_suite_cong [OF this] show ?thesis
    by (simp add: suite_defs formatMessages_tests)
qed

theorem either_reading_passes_suite_witness:
  "meets_either_reading keeps_fields \<and> passes_format_suite keeps_fields \<and>
   keeps_fields
     [\<lparr>role = User, content = Value ''hi'', tool_call_id = Some ''c'', tool_calls = None\<rparr>] None \<noteq>
   formatMessages
     [\<lparr>role = User, content = Value ''hi'', tool_call_id = Some ''c'', tool_calls = None\<rparr>] None"
  using either_reading_passes_suite [OF keeps_fields_meets] keeps_fields_meets
  by (simp add: keeps_fields_def pass_through_def formatMessage_def)

section \<open>What the suite leaves open\<close>

text \<open>
  Two formatters with a plausible fault each. The first prepends a system message
  for every prompt that is given, the empty one included. The second keeps the
  first tool call of an assistant message only.
\<close>

definition prompt_always :: formatter where
  "prompt_always ms sp =
     (case sp of None \<Rightarrow> [] | Some s \<Rightarrow> [system_message s]) @ map formatMessage ms"

definition first_call_only :: formatter where
  "first_call_only ms sp =
     map (\<lambda>m. m\<lparr>tool_calls := map_option (take 1) (tool_calls m)\<rparr>) (formatMessages ms sp)"

lemma prompt_always_eq: "sp \<noteq> Some [] \<Longrightarrow> prompt_always ms sp = formatMessages ms sp"
  by (cases sp) (simp_all add: prompt_always_def formatMessages_def)

lemma first_call_only_eq:
  "list_all (\<lambda>m. case tool_calls m of None \<Rightarrow> True | Some cs \<Rightarrow> length cs \<le> 1) ms \<Longrightarrow>
   first_call_only ms sp = formatMessages ms sp"
proof -
  assume short: "list_all (\<lambda>m. case tool_calls m of None \<Rightarrow> True | Some cs \<Rightarrow> length cs \<le> 1) ms"
  have "map_option (take 1) (tool_calls r) = tool_calls r" if "r \<in> set (formatMessages ms sp)" for r
  proof -
    from that consider s where "r = system_message s" | m where "m \<in> set ms" "r = formatMessage m"
      by (auto simp: formatMessages_def prompt_prefix_def split: option.splits if_splits)
    then show ?thesis
    proof cases
      case 1
      then show ?thesis by (simp add: system_message_def)
    next
      case 2
      with short have "case tool_calls m of None \<Rightarrow> True | Some cs \<Rightarrow> length cs \<le> 1"
        by (simp add: list_all_iff)
      with 2 show ?thesis
        by (cases "tool_calls m") (simp_all add: tool_calls_formatMessage)
    qed
  qed
  then show ?thesis
    by (simp add: first_call_only_def map_idI)
qed

lemma prompt_always_on_suite:
  "list_all (\<lambda>(ms, sp). prompt_always ms sp = formatMessages ms sp) suite_inputs"
  by (simp add: list_all_suite_inputs prompt_always_eq)

lemma first_call_only_on_suite:
  "list_all (\<lambda>(ms, sp). first_call_only ms sp = formatMessages ms sp) suite_inputs"
  by (simp add: list_all_suite_inputs first_call_only_eq format_tests)

text \<open>
  C13 (functional). The suite never gives an empty prompt: a formatter that prepends
  a system message with empty content for it passes the suite although the
  specification asks for no system message then.
\<close>

theorem suite_misses_empty_prompt:
  "passes_format_suite prompt_always \<and>
   prompt_always [] (Some []) \<noteq> formatMessages [] (Some []) \<and>
   \<not> meets_contract prompt_always"
proof -
  have "passes_format_suite prompt_always"
    using passes_format_suite_cong [OF prompt_always_on_suite]
    by (simp add: suite_defs formatMessages_tests)
  moreover have differ: "prompt_always [] (Some []) \<noteq> formatMessages [] (Some [])"
    by (simp add: prompt_always_def formatMessages_def)
  moreover from differ have "\<not> meets_contract prompt_always"
    by (auto simp: meets_contract_iff)
  ultimately show ?thesis by simp
qed

text \<open>
  C14 (functional). The suite never gives an assistant message more than one tool
  call: a formatter that drops all calls but the first passes the suite although
  the specification asks for the calls unchanged.
\<close>

theorem suite_misses_several_calls:
  "passes_format_suite first_call_only \<and> \<not> meets_contract first_call_only"
proof -
  have "passes_format_suite first_call_only"
    using passes_format_suite_cong [OF first_call_only_on_suite]
    by (simp add: suite_defs formatMessages_tests)
  moreover
  let ?c = "\<lparr>call_id = ''a'', call_type = ''function'',
             call_function = \<lparr>fn_name = ''f'', fn_arguments = ''{}''\<rparr>\<rparr>"
  let ?m = "\<lparr>role = Assistant, content = Null, tool_call_id = None,
             tool_calls = Some [?c, ?c]\<rparr>"
  have "first_call_only [?m] None \<noteq> formatMessages [?m] None"
    by (simp add: first_call_only_def formatMessage_def)
  then have "\<not> meets_contract first_call_only"
    by (auto simp: meets_contract_iff)
  ultimately show ?thesis by simp
qed

end
