(* ===== verification/Shapes.thy ===== *)
theory Shapes
  imports JsValue "HOL-Library.Sublist"
begin

text \<open>
  The building blocks of the shape validators (sections 4.2 and 7 of the
  specification). A validator takes the path of the value it checks and the value,
  and returns the parsed value or the one kind of failure there is: a shape
  mismatch, which names the path of the offending value and the shape that was
  expected there. No validator raises; a composite validator stops at the first
  mismatch, in the order of its fields.
\<close>

section \<open>Failures\<close>

type_synonym path = "string list"

datatype shape_mismatch = ShapeMismatch (mismatch_path: path) (mismatch_expected: string)

type_synonym 'a parsed = "(shape_mismatch, 'a) result"

type_synonym 'a validator = "path \<Rightarrow> jsval \<Rightarrow> 'a parsed"

definition mismatch :: "path \<Rightarrow> string \<Rightarrow> 'a parsed" where
  "mismatch p what = Inl (ShapeMismatch p what)"

text \<open>The path of the failure of a result, if it is one.\<close>

definition failure_path :: "'a parsed \<Rightarrow> path option" where
  "failure_path r = (case r of Inl e \<Rightarrow> Some (mismatch_path e) | Inr _ \<Rightarrow> None)"

section \<open>Primitive shapes\<close>

fun expect_string :: "string validator" where
  "expect_string p (JStr s) = Inr s"
| "expect_string p _ = mismatch p ''string''"

fun expect_boolean :: "bool validator" where
  "expect_boolean p (JBool b) = Inr b"
| "expect_boolean p _ = mismatch p ''boolean''"

fun expect_object :: "js_object validator" where
  "expect_object p (JObj kvs) = Inr kvs"
| "expect_object p _ = mismatch p ''object''"

text \<open>A literal: the given text and no other value.\<close>

definition expect_literal :: "string \<Rightarrow> string validator" where
  "expect_literal lit p v = (if v = JStr lit then Inr lit else mismatch p lit)"

section \<open>Combinators\<close>

text \<open>
  An optional field: absent (or \<open>undefined\<close>) is accepted as \<open>None\<close>; anything else must
  have the shape. A field that is optional and unconstrained is read by \<open>present\<close>.
\<close>

definition optional :: "'a validator \<Rightarrow> 'a option validator" where
  "optional f p v = (if v = JUndefined then Inr None else and_then (f p v) (\<lambda>x. Inr (Some x)))"

definition present :: "jsval \<Rightarrow> jsval option" where
  "present v = (if v = JUndefined then None else Some v)"

text \<open>A field that is an array of values of a shape; element \<open>i\<close> is checked at path \<open>p @ [i]\<close>.\<close>

fun expect_array :: "'a validator \<Rightarrow> 'a list validator" where
  "expect_array f p (JArr xs) = traverse (\<lambda>i x. f (p @ [nat_digits i]) x) xs"
| "expect_array f p _ = mismatch p ''array''"

declare expect_array.simps [simp del]

text \<open>The field \<open>k\<close> of an object at path \<open>p\<close>, checked by \<open>f\<close>.\<close>

definition field :: "'a validator \<Rightarrow> path \<Rightarrow> js_object \<Rightarrow> string \<Rightarrow> 'a parsed" where
  "field f p obj k = f (p @ [k]) (get_prop obj k)"

lemmas shape_defs [schema_defs] =
  mismatch_def expect_literal_def optional_def present_def field_def

section \<open>When a shape is accepted\<close>

lemma mismatch_not_Inr [simp]: "mismatch p what \<noteq> Inr x"
  by (simp add: mismatch_def)

lemma succeeded_mismatch [simp]: "\<not> succeeded (mismatch p what)"
  by (simp add: mismatch_def)

lemma failure_path_simps [simp]:
  "failure_path (Inr x) = None"
  "failure_path (mismatch p what) = Some p"
  "failure_path (Inl e) = Some (mismatch_path e)"
  by (simp_all add: failure_path_def mismatch_def)

lemma failure_path_None_iff: "failure_path r = None \<longleftrightarrow> succeeded r"
  by (cases r) simp_all

lemma expect_string_Inr_iff: "expect_string p v = Inr s \<longleftrightarrow> v = JStr s"
  by (cases v) simp_all

lemma expect_boolean_Inr_iff: "expect_boolean p v = Inr b \<longleftrightarrow> v = JBool b"
  by (cases v) simp_all

lemma expect_object_Inr_iff: "expect_object p v = Inr kvs \<longleftrightarrow> v = JObj kvs"
  by (cases v) simp_all

lemma expect_literal_Inr_iff: "expect_literal lit p v = Inr s \<longleftrightarrow> v = JStr lit \<and> s = lit"
  by (auto simp: expect_literal_def)

lemma expect_literal_same [simp]: "expect_literal lit p (JStr lit) = Inr lit"
  by (simp add: expect_literal_def)

lemma optional_Inr_iff:
  "optional f p v = Inr x \<longleftrightarrow>
     (v = JUndefined \<and> x = None) \<or> (v \<noteq> JUndefined \<and> (\<exists>y. f p v = Inr y \<and> x = Some y))"
  by (auto simp: optional_def and_then_Inr_iff)

lemma optional_undefined [simp]: "optional f p JUndefined = Inr None"
  by (simp add: optional_def)

lemma optional_defined: "v \<noteq> JUndefined \<Longrightarrow> f p v = Inr y \<Longrightarrow> optional f p v = Inr (Some y)"
  by (simp add: optional_def)

lemma present_simps [simp]:
  "present JUndefined = None"
  "v \<noteq> JUndefined \<Longrightarrow> present v = Some v"
  by (simp_all add: present_def)

lemma expect_array_Inr_iff:
  "expect_array f p v = Inr ys \<longleftrightarrow>
     (\<exists>xs. v = JArr xs \<and> length ys = length xs \<and>
           (\<forall>i < length xs. f (p @ [nat_digits i]) (xs ! i) = Inr (ys ! i)))"
  by (cases v) (simp_all add: expect_array.simps traverse_Inr_iff)

lemma expect_array_map:
  "(\<And>q x. x \<in> set xs \<Longrightarrow> f q (g x) = Inr x) \<Longrightarrow>
   expect_array f p (JArr (map g xs)) = Inr xs"
  by (simp add: expect_array.simps traverse_def traverse_from_map
      traverse_from_all_Inr [where g = "\<lambda>x. x"])

text \<open>A failure is reported at the path of the value or below it.\<close>

definition reports_below :: "'a validator \<Rightarrow> bool" where
  "reports_below f \<longleftrightarrow> (\<forall>p v q. failure_path (f p v) = Some q \<longrightarrow> prefix p q)"

section \<open>Where a shape fails\<close>

lemma failure_path_Some_iff:
  "failure_path r = Some q \<longleftrightarrow> (\<exists>e. r = Inl e \<and> mismatch_path e = q)"
  by (cases r) auto

text \<open>Two steps in sequence fail where the first fails, or else where the second does.\<close>

lemma failure_path_and_then:
  "failure_path (and_then r f) = Some q \<longleftrightarrow>
     failure_path r = Some q \<or> (\<exists>x. r = Inr x \<and> failure_path (f x) = Some q)"
  by (cases r) simp_all

lemma reports_belowD: "reports_below f \<Longrightarrow> failure_path (f p v) = Some q \<Longrightarrow> prefix p q"
  by (auto simp: reports_below_def)

text \<open>A primitive shape fails at the very path it was given.\<close>

lemma failure_path_primitives:
  "failure_path (expect_string p v) = Some q \<Longrightarrow> q = p"
  "failure_path (expect_boolean p v) = Some q \<Longrightarrow> q = p"
  "failure_path (expect_object p v) = Some q \<Longrightarrow> q = p"
  "failure_path (expect_literal lit p v) = Some q \<Longrightarrow> q = p"
  by (cases v; simp add: expect_literal_def split: if_splits)+

lemma reports_below_primitives:
  "reports_below expect_string" "reports_below expect_boolean" "reports_below expect_object"
  "reports_below (expect_literal lit)"
  by (auto simp: reports_below_def dest: failure_path_primitives)

lemma reports_below_optional: "reports_below f \<Longrightarrow> reports_below (optional f)"
  by (auto simp: reports_below_def optional_def failure_path_and_then split: if_splits)

lemma prefix_snoc: "prefix (p @ [k]) q \<Longrightarrow> prefix p q"
  by (rule append_prefixD)

lemma reports_below_array: "reports_below f \<Longrightarrow> reports_below (expect_array f)"
  unfolding reports_below_def
proof (intro allI impI)
  fix p v q
  assume f: "\<forall>p v q. failure_path (f p v) = Some q \<longrightarrow> prefix p q"
    and q: "failure_path (expect_array f p v) = Some q"
  show "prefix p q"
  proof (cases v)
    case (JArr xs)
    with q obtain e
      where "traverse (\<lambda>i x. f (p @ [nat_digits i]) x) xs = Inl e" "mismatch_path e = q"
      by (auto simp: expect_array.simps failure_path_Some_iff)
    then obtain k where "f (p @ [nat_digits k]) (xs ! k) = Inl e"
      by (auto dest: traverse_Inl)
    with f \<open>mismatch_path e = q\<close> have "prefix (p @ [nat_digits k]) q"
      by (auto simp: failure_path_Some_iff)
    then show ?thesis by (rule prefix_snoc)
  qed (use q in \<open>simp_all add: expect_array.simps\<close>)
qed

lemma failure_path_field:
  "failure_path (field f p obj k) = Some q \<Longrightarrow> reports_below f \<Longrightarrow> prefix p q"
  by (auto simp: field_def dest!: reports_belowD intro: prefix_snoc)

text \<open>An object shape: the value must be an object, then its fields are checked.\<close>

lemma object_reports_below:
  assumes "\<And>p obj q. failure_path (g p obj) = Some q \<Longrightarrow> prefix p q"
  shows "reports_below (\<lambda>p v. and_then (expect_object p v) (g p))"
  using assms
  by (auto simp: reports_below_def failure_path_and_then dest: failure_path_primitives)

lemmas reports_below_intros =
  reports_below_primitives reports_below_optional reports_below_array

end
