(* ===== verification/ToolSchemas.thy ===== *)
theory ToolSchemas
  imports Shapes ChatTypes
begin

text \<open>
  The shape validators of the tool-calling chat service (section 4.2 of the
  specification): tool definition, tool, tool choice, tool call, chat message,
  request and response. Their code lives in \<open>@insforge/shared-schemas\<close>, outside the
  sources; they are modelled from the specification, and the schema suite of
  theory \<open>SchemaTests\<close> is what the sources say about them.

  Each validator comes in two forms: \<open>x_at p v\<close> checks the value \<open>v\<close> found at path
  \<open>p\<close>, so that a composite validator can delegate to it; the schema \<open>xSchema\<close> is the
  validator at the empty path, and \<open>xSchema v\<close> models \<open>xSchema.safeParse(v)\<close>.
  A parsed value keeps the fields of the contract and drops every other key.

  The encoders write a parsed value back as the JavaScript value it came from,
  with absent optional fields left out.
\<close>

section \<open>Validators\<close>

definition function_call_at :: "function_call validator" where
  "function_call_at p v =
     and_then (expect_object p v) (\<lambda>obj.
     and_then (field expect_string p obj ''name'') (\<lambda>n.
     and_then (field expect_string p obj ''arguments'') (\<lambda>a.
     Inr \<lparr>fn_name = n, fn_arguments = a\<rparr>)))"

definition tool_call_at :: "tool_call validator" where
  "tool_call_at p v =
     and_then (expect_object p v) (\<lambda>obj.
     and_then (field expect_string p obj ''id'') (\<lambda>i.
     and_then (field (expect_literal ''function'') p obj ''type'') (\<lambda>t.
     and_then (field function_call_at p obj ''function'') (\<lambda>f.
     Inr \<lparr>call_id = i, call_type = t, call_function = f\<rparr>))))"

definition tool_function_at :: "tool_definition validator" where
  "tool_function_at p v =
     and_then (expect_object p v) (\<lambda>obj.
     and_then (field expect_string p obj ''name'') (\<lambda>n.
     Inr \<lparr>def_name = n,
          def_description = present (get_prop obj ''description''),
          def_parameters = present (get_prop obj ''parameters'')\<rparr>))"

definition tool_at :: "tool validator" where
  "tool_at p v =
     and_then (expect_object p v) (\<lambda>obj.
     and_then (field (expect_literal ''function'') p obj ''type'') (\<lambda>t.
     and_then (field tool_function_at p obj ''function'') (\<lambda>f.
     Inr \<lparr>tool_type = t, tool_function = f\<rparr>)))"

definition tool_choice_at :: "tool_choice validator" where
  "tool_choice_at p v =
     (case v of
        JStr s \<Rightarrow>
          if s = ''auto'' then Inr Auto
          else if s = ''none'' then Inr NoTool
          else if s = ''required'' then Inr Required
          else mismatch p ''auto | none | required''
      | JObj obj \<Rightarrow>
          and_then (field (expect_literal ''function'') p obj ''type'') (\<lambda>t.
          and_then (field expect_object p obj ''function'') (\<lambda>f.
          and_then (field expect_string (p @ [''function'']) f ''name'') (\<lambda>n.
          Inr (Pinned n))))
      | _ \<Rightarrow> mismatch p ''tool choice'')"

definition role_at :: "role validator" where
  "role_at p v =
     (case v of
        JStr s \<Rightarrow> (case role_of_name s of Some r \<Rightarrow> Inr r | None \<Rightarrow> mismatch p ''role'')
      | _ \<Rightarrow> mismatch p ''role'')"

definition content_at :: "string nullable validator" where
  "content_at p v =
     (case v of
        JNull \<Rightarrow> Inr Null
      | JStr s \<Rightarrow> Inr (Value s)
      | _ \<Rightarrow> mismatch p ''string | null'')"

definition chat_message_at :: "chat_message validator" where
  "chat_message_at p v =
     and_then (expect_object p v) (\<lambda>obj.
     and_then (field role_at p obj ''role'') (\<lambda>r.
     and_then (field content_at p obj ''content'') (\<lambda>c.
     and_then (field (optional expect_string) p obj ''tool_call_id'') (\<lambda>i.
     and_then (field (optional (expect_array tool_call_at)) p obj ''tool_calls'') (\<lambda>cs.
     Inr \<lparr>role = r, content = c, tool_call_id = i, tool_calls = cs\<rparr>)))))"

definition request_at :: "chat_completion_request validator" where
  "request_at p v =
     and_then (expect_object p v) (\<lambda>obj.
     and_then (field expect_string p obj ''model'') (\<lambda>m.
     and_then (field (expect_array chat_message_at) p obj ''messages'') (\<lambda>ms.
     and_then (field (optional (expect_array tool_at)) p obj ''tools'') (\<lambda>ts.
     and_then (field (optional tool_choice_at) p obj ''tool_choice'') (\<lambda>c.
     and_then (field (optional expect_boolean) p obj ''parallel_tool_calls'') (\<lambda>b.
     Inr \<lparr>req_model = m, req_messages = ms, req_tools = ts, req_tool_choice = c,
          req_parallel_tool_calls = b\<rparr>))))))"

definition response_at :: "chat_completion_response validator" where
  "response_at p v =
     and_then (expect_object p v) (\<lambda>obj.
     and_then (field expect_string p obj ''text'') (\<lambda>t.
     and_then (field (optional (expect_array tool_call_at)) p obj ''tool_calls'') (\<lambda>cs.
     and_then (field expect_object p obj ''metadata'') (\<lambda>md.
     Inr \<lparr>resp_text = t, resp_tool_calls = cs, resp_metadata = md\<rparr>))))"

text \<open>The schemas, as the callers see them.\<close>

definition toolFunctionSchema :: "jsval \<Rightarrow> tool_definition parsed" where
  "toolFunctionSchema = tool_function_at []"

definition toolSchema :: "jsval \<Rightarrow> tool parsed" where
  "toolSchema = tool_at []"

definition toolChoiceSchema :: "jsval \<Rightarrow> tool_choice parsed" where
  "toolChoiceSchema = tool_choice_at []"

definition toolCallSchema :: "jsval \<Rightarrow> tool_call parsed" where
  "toolCallSchema = tool_call_at []"

definition chatMessageSchema :: "jsval \<Rightarrow> chat_message parsed" where
  "chatMessageSchema = chat_message_at []"

definition chatCompletionRequestSchema :: "jsval \<Rightarrow> chat_completion_request parsed" where
  "chatCompletionRequestSchema = request_at []"

definition chatCompletionResponseSchema :: "jsval \<Rightarrow> chat_completion_response parsed" where
  "chatCompletionResponseSchema = response_at []"

lemmas validator_defs [schema_defs] =
  function_call_at_def tool_call_at_def tool_function_at_def tool_at_def tool_choice_at_def
  role_at_def content_at_def chat_message_at_def request_at_def response_at_def

lemmas schema_top_defs [schema_defs] =
  toolFunctionSchema_def toolSchema_def toolChoiceSchema_def toolCallSchema_def
  chatMessageSchema_def chatCompletionRequestSchema_def chatCompletionResponseSchema_def

section \<open>Encoders\<close>

definition opt_field :: "string \<Rightarrow> ('a \<Rightarrow> jsval) \<Rightarrow> 'a option \<Rightarrow> js_object" where
  "opt_field k f x = (case x of None \<Rightarrow> [] | Some y \<Rightarrow> [(k, f y)])"

definition encode_function_call :: "function_call \<Rightarrow> jsval" where
  "encode_function_call f =
     JObj [(''name'', JStr (fn_name f)), (''arguments'', JStr (fn_arguments f))]"

definition encode_tool_call :: "tool_call \<Rightarrow> jsval" where
  "encode_tool_call c =
     JObj [(''id'', JStr (call_id c)), (''type'', JStr (call_type c)),
           (''function'', encode_function_call (call_function c))]"

fun encode_content :: "string nullable \<Rightarrow> jsval" where
  "encode_content Null = JNull"
| "encode_content (Value s) = JStr s"

definition encode_message :: "chat_message \<Rightarrow> jsval" where
  "encode_message m =
     JObj ([(''role'', JStr (role_name (role m))), (''content'', encode_content (content m))] @
           opt_field ''tool_call_id'' JStr (tool_call_id m) @
           opt_field ''tool_calls'' (\<lambda>cs. JArr (map encode_tool_call cs)) (tool_calls m))"

definition encode_tool_definition :: "tool_definition \<Rightarrow> jsval" where
  "encode_tool_definition d =
     JObj ([(''name'', JStr (def_name d))] @
           opt_field ''description'' (\<lambda>v. v) (def_description d) @
           opt_field ''parameters'' (\<lambda>v. v) (def_parameters d))"

definition encode_tool :: "tool \<Rightarrow> jsval" where
  "encode_tool t =
     JObj [(''type'', JStr (tool_type t)), (''function'', encode_tool_definition (tool_function t))]"

fun encode_tool_choice :: "tool_choice \<Rightarrow> jsval" where
  "encode_tool_choice Auto = JStr ''auto''"
| "encode_tool_choice NoTool = JStr ''none''"
| "encode_tool_choice Required = JStr ''required''"
| "encode_tool_choice (Pinned n) =
     JObj [(''type'', JStr ''function''), (''function'', JObj [(''name'', JStr n)])]"

definition encode_request :: "chat_completion_request \<Rightarrow> jsval" where
  "encode_request r =
     JObj ([(''model'', JStr (req_model r)),
            (''messages'', JArr (map encode_message (req_messages r)))] @
           opt_field ''tools'' (\<lambda>ts. JArr (map encode_tool ts)) (req_tools r) @
           opt_field ''tool_choice'' encode_tool_choice (req_tool_choice r) @
           opt_field ''parallel_tool_calls'' JBool (req_parallel_tool_calls r))"

definition encode_response :: "chat_completion_response \<Rightarrow> jsval" where
  "encode_response r =
     JObj ([(''text'', JStr (resp_text r))] @
           opt_field ''tool_calls'' (\<lambda>cs. JArr (map encode_tool_call cs)) (resp_tool_calls r) @
           [(''metadata'', JObj (resp_metadata r))])"

lemmas encoder_defs [schema_defs] =
  opt_field_def encode_function_call_def encode_tool_call_def encode_message_def
  encode_tool_definition_def encode_tool_def encode_request_def encode_response_def

section \<open>Values of the data model that a validator can return\<close>

text \<open>
  The types of theory \<open>ChatTypes\<close> are wider than the contract: the type of a call or
  of a tool is the literal \<open>function\<close>, and an unconstrained optional field that is
  present is not \<open>undefined\<close>.
\<close>

definition valid_tool_call :: "tool_call \<Rightarrow> bool" where
  "valid_tool_call c \<longleftrightarrow> call_type c = ''function''"

definition valid_message :: "chat_message \<Rightarrow> bool" where
  "valid_message m \<longleftrightarrow>
     (case tool_calls m of None \<Rightarrow> True | Some cs \<Rightarrow> list_all valid_tool_call cs)"

definition valid_tool_definition :: "tool_definition \<Rightarrow> bool" where
  "valid_tool_definition d \<longleftrightarrow>
     def_description d \<noteq> Some JUndefined \<and> def_parameters d \<noteq> Some JUndefined"

definition valid_tool :: "tool \<Rightarrow> bool" where
  "valid_tool t \<longleftrightarrow> tool_type t = ''function'' \<and> valid_tool_definition (tool_function t)"

definition valid_request :: "chat_completion_request \<Rightarrow> bool" where
  "valid_request r \<longleftrightarrow>
     list_all valid_message (req_messages r) \<and>
     (case req_tools r of None \<Rightarrow> True | Some ts \<Rightarrow> list_all valid_tool ts)"

definition valid_response :: "chat_completion_response \<Rightarrow> bool" where
  "valid_response r \<longleftrightarrow>
     (case resp_tool_calls r of None \<Rightarrow> True | Some cs \<Rightarrow> list_all valid_tool_call cs)"

lemmas valid_defs =
  valid_tool_call_def valid_message_def valid_tool_definition_def valid_tool_def
  valid_request_def valid_response_def

section \<open>What each validator accepts\<close>

lemmas Inr_iffs =
  and_then_Inr_iff expect_string_Inr_iff expect_boolean_Inr_iff expect_object_Inr_iff
  expect_literal_Inr_iff optional_Inr_iff field_def

lemma present_eq_iff:
  "present v = x \<longleftrightarrow> (v = JUndefined \<and> x = None) \<or> (v \<noteq> JUndefined \<and> x = Some v)"
  by (auto simp: present_def)

lemma function_call_at_Inr_iff:
  "function_call_at p v = Inr f \<longleftrightarrow>
     (\<exists>obj. v = JObj obj \<and> get_prop obj ''name'' = JStr (fn_name f) \<and>
            get_prop obj ''arguments'' = JStr (fn_arguments f))"
  by (cases f) (auto simp: function_call_at_def Inr_iffs)

lemma tool_call_at_Inr_iff:
  "tool_call_at p v = Inr c \<longleftrightarrow>
     (\<exists>obj. v = JObj obj \<and> get_prop obj ''id'' = JStr (call_id c) \<and>
        get_prop obj ''type'' = JStr ''function'' \<and> call_type c = ''function'' \<and>
        function_call_at (p @ [''function'']) (get_prop obj ''function'') = Inr (call_function c))"
  by (cases c) (auto simp: tool_call_at_def Inr_iffs)

lemma tool_function_at_Inr_iff:
  "tool_function_at p v = Inr d \<longleftrightarrow>
     (\<exists>obj. v = JObj obj \<and> get_prop obj ''name'' = JStr (def_name d) \<and>
        present (get_prop obj ''description'') = def_description d \<and>
        present (get_prop obj ''parameters'') = def_parameters d)"
  by (cases d) (auto simp: tool_function_at_def Inr_iffs)

lemma tool_at_Inr_iff:
  "tool_at p v = Inr t \<longleftrightarrow>
     (\<exists>obj. v = JObj obj \<and> get_prop obj ''type'' = JStr ''function'' \<and>
        tool_type t = ''function'' \<and>
        tool_function_at (p @ [''function'']) (get_prop obj ''function'') = Inr (tool_function t))"
  by (cases t) (auto simp: tool_at_def Inr_iffs)

lemma tool_choice_at_Inr_iff:
  "tool_choice_at p v = Inr c \<longleftrightarrow>
     (case c of
        Pinned n \<Rightarrow>
          (\<exists>obj f. v = JObj obj \<and> get_prop obj ''type'' = JStr ''function'' \<and>
             get_prop obj ''function'' = JObj f \<and> get_prop f ''name'' = JStr n)
      | _ \<Rightarrow> v = encode_tool_choice c)"
  by (cases v; cases c) (auto simp: tool_choice_at_def Inr_iffs)

lemma role_at_Inr_iff: "role_at p v = Inr r \<longleftrightarrow> v = JStr (role_name r)"
  by (cases v) (auto simp: role_at_def role_of_name_Some_iff split: option.splits)

lemma content_at_Inr_iff: "content_at p v = Inr c \<longleftrightarrow> v = encode_content c"
  by (cases v; cases c) (auto simp: content_at_def)

lemma chat_message_at_Inr_iff:
  "chat_message_at p v = Inr m \<longleftrightarrow>
     (\<exists>obj. v = JObj obj \<and>
        get_prop obj ''role'' = JStr (role_name (role m)) \<and>
        get_prop obj ''content'' = encode_content (content m) \<and>
        optional expect_string (p @ [''tool_call_id'']) (get_prop obj ''tool_call_id'') =
          Inr (tool_call_id m) \<and>
        optional (expect_array tool_call_at) (p @ [''tool_calls'']) (get_prop obj ''tool_calls'') =
          Inr (tool_calls m))"
  by (cases m)
    (auto simp: chat_message_at_def and_then_Inr_iff expect_object_Inr_iff field_def
       role_at_Inr_iff content_at_Inr_iff)

lemma request_at_Inr_iff:
  "request_at p v = Inr r \<longleftrightarrow>
     (\<exists>obj. v = JObj obj \<and>
        get_prop obj ''model'' = JStr (req_model r) \<and>
        expect_array chat_message_at (p @ [''messages'']) (get_prop obj ''messages'') =
          Inr (req_messages r) \<and>
        optional (expect_array tool_at) (p @ [''tools'']) (get_prop obj ''tools'') =
          Inr (req_tools r) \<and>
        optional tool_choice_at (p @ [''tool_choice'']) (get_prop obj ''tool_choice'') =
          Inr (req_tool_choice r) \<and>
        optional expect_boolean (p @ [''parallel_tool_calls''])
          (get_prop obj ''parallel_tool_calls'') = Inr (req_parallel_tool_calls r))"
  by (cases r)
    (auto simp: request_at_def and_then_Inr_iff expect_object_Inr_iff expect_string_Inr_iff
       field_def)

lemma response_at_Inr_iff:
  "response_at p v = Inr r \<longleftrightarrow>
     (\<exists>obj. v = JObj obj \<and>
        get_prop obj ''text'' = JStr (resp_text r) \<and>
        optional (expect_array tool_call_at) (p @ [''tool_calls'']) (get_prop obj ''tool_calls'') =
          Inr (resp_tool_calls r) \<and>
        get_prop obj ''metadata'' = JObj (resp_metadata r))"
  by (cases r)
    (auto simp: response_at_def and_then_Inr_iff expect_object_Inr_iff expect_string_Inr_iff
       field_def)

lemmas validator_Inr_iffs =
  function_call_at_Inr_iff tool_call_at_Inr_iff tool_function_at_Inr_iff tool_at_Inr_iff
  tool_choice_at_Inr_iff role_at_Inr_iff content_at_Inr_iff chat_message_at_Inr_iff
  request_at_Inr_iff response_at_Inr_iff

section \<open>A parsed value is a value of the contract\<close>

lemma expect_array_parsed:
  "(\<And>q x y. f q x = Inr y \<Longrightarrow> P y) \<Longrightarrow> expect_array f p v = Inr ys \<Longrightarrow> list_all P ys"
  by (auto simp: expect_array_Inr_iff list_all_length)

lemma tool_call_parsed_valid: "tool_call_at p v = Inr c \<Longrightarrow> valid_tool_call c"
  by (auto simp: tool_call_at_Inr_iff valid_tool_call_def)

lemma chat_message_parsed_valid: "chat_message_at p v = Inr m \<Longrightarrow> valid_message m"
  by (auto simp: chat_message_at_Inr_iff valid_message_def optional_Inr_iff
      split: option.splits
      intro: expect_array_parsed [where f = tool_call_at] tool_call_parsed_valid)

lemma tool_definition_parsed_valid: "tool_function_at p v = Inr d \<Longrightarrow> valid_tool_definition d"
  by (auto simp: tool_function_at_Inr_iff valid_tool_definition_def present_eq_iff)

lemma tool_parsed_valid: "tool_at p v = Inr t \<Longrightarrow> valid_tool t"
  by (auto simp: tool_at_Inr_iff valid_tool_def tool_definition_parsed_valid)

lemma request_parsed_valid: "request_at p v = Inr r \<Longrightarrow> valid_request r"
  by (auto simp: request_at_Inr_iff valid_request_def optional_Inr_iff split: option.splits
      intro: expect_array_parsed [where f = chat_message_at] expect_array_parsed [where f = tool_at]
        chat_message_parsed_valid tool_parsed_valid)

lemma response_parsed_valid: "response_at p v = Inr r \<Longrightarrow> valid_response r"
  by (auto simp: response_at_Inr_iff valid_response_def optional_Inr_iff split: option.splits
      intro: expect_array_parsed [where f = tool_call_at] tool_call_parsed_valid)

lemmas parsed_valid =
  tool_call_parsed_valid chat_message_parsed_valid tool_definition_parsed_valid
  tool_parsed_valid request_parsed_valid response_parsed_valid

section \<open>Encoding, then validating\<close>

lemma get_prop_opt_field_append [simp]:
  "get_prop (opt_field k f x @ rest) k' =
     (case x of None \<Rightarrow> get_prop rest k' | Some y \<Rightarrow> if k' = k then f y else get_prop rest k')"
  by (simp add: opt_field_def split: option.splits)

lemma get_prop_opt_field [simp]:
  "get_prop (opt_field k f x) k' =
     (case x of None \<Rightarrow> JUndefined | Some y \<Rightarrow> if k' = k then f y else JUndefined)"
  by (simp add: opt_field_def split: option.splits)

lemma role_at_role_name [simp]: "role_at p (JStr (role_name r)) = Inr r"
  by (simp add: role_at_Inr_iff)

lemma content_at_encode [simp]: "content_at p (encode_content c) = Inr c"
  by (simp add: content_at_Inr_iff)

lemma encode_tool_choice_defined [simp]: "encode_tool_choice c \<noteq> JUndefined"
  by (cases c) simp_all

lemma function_call_roundtrip [simp]: "function_call_at p (encode_function_call f) = Inr f"
  by (simp add: function_call_at_Inr_iff encode_function_call_def)

lemma tool_call_roundtrip: "valid_tool_call c \<Longrightarrow> tool_call_at p (encode_tool_call c) = Inr c"
  by (simp add: tool_call_at_Inr_iff encode_tool_call_def valid_tool_call_def)

lemma tool_calls_array_roundtrip:
  "list_all valid_tool_call cs \<Longrightarrow>
   expect_array tool_call_at p (JArr (map encode_tool_call cs)) = Inr cs"
  by (rule expect_array_map) (simp add: list_all_iff tool_call_roundtrip)

lemma chat_message_roundtrip: "valid_message m \<Longrightarrow> chat_message_at p (encode_message m) = Inr m"
  by (auto simp: chat_message_at_Inr_iff encode_message_def valid_message_def
      tool_calls_array_roundtrip optional_Inr_iff split: option.splits)

lemma tool_definition_roundtrip:
  "valid_tool_definition d \<Longrightarrow> tool_function_at p (encode_tool_definition d) = Inr d"
  by (auto simp: tool_function_at_Inr_iff encode_tool_definition_def valid_tool_definition_def
      present_eq_iff split: option.splits)

lemma tool_roundtrip: "valid_tool t \<Longrightarrow> tool_at p (encode_tool t) = Inr t"
  by (simp add: tool_at_Inr_iff encode_tool_def valid_tool_def tool_definition_roundtrip)

lemma tool_choice_roundtrip [simp]: "tool_choice_at p (encode_tool_choice c) = Inr c"
  by (cases c) (simp_all add: tool_choice_at_def field_def)

lemma request_roundtrip: "valid_request r \<Longrightarrow> request_at p (encode_request r) = Inr r"
  by (auto simp: request_at_Inr_iff encode_request_def valid_request_def optional_Inr_iff
      expect_boolean_Inr_iff list_all_iff
      intro!: expect_array_map chat_message_roundtrip tool_roundtrip
      split: option.splits)

lemma response_roundtrip: "valid_response r \<Longrightarrow> response_at p (encode_response r) = Inr r"
  by (auto simp: response_at_Inr_iff encode_response_def valid_response_def optional_Inr_iff
      tool_calls_array_roundtrip split: option.splits)

lemmas roundtrips =
  tool_call_roundtrip chat_message_roundtrip tool_definition_roundtrip tool_roundtrip
  request_roundtrip response_roundtrip

text \<open>
  Validating, encoding and validating again gives the same parsed value: the
  encoding of a parsed value is a normal form of the value it was parsed from.
\<close>

lemma chat_message_normal_form:
  "chat_message_at p v = Inr m \<Longrightarrow> chat_message_at q (encode_message m) = Inr m"
  by (intro chat_message_roundtrip chat_message_parsed_valid)

lemma request_normal_form:
  "request_at p v = Inr r \<Longrightarrow> request_at q (encode_request r) = Inr r"
  by (intro request_roundtrip request_parsed_valid)

lemma response_normal_form:
  "response_at p v = Inr r \<Longrightarrow> response_at q (encode_response r) = Inr r"
  by (intro response_roundtrip response_parsed_valid)

section \<open>The path does not decide acceptance\<close>

lemma expect_array_path:
  "(\<And>p q x y. f p x = Inr y \<longleftrightarrow> f q x = Inr y) \<Longrightarrow>
   expect_array f p v = Inr ys \<longleftrightarrow> expect_array f q v = Inr ys"
  by (simp add: expect_array_Inr_iff) blast

lemma optional_path:
  "(\<And>p q x y. f p x = Inr y \<longleftrightarrow> f q x = Inr y) \<Longrightarrow>
   optional f p v = Inr x \<longleftrightarrow> optional f q v = Inr x"
  by (simp add: optional_Inr_iff) blast

lemma function_call_at_path: "function_call_at p v = Inr f \<longleftrightarrow> function_call_at q v = Inr f"
  by (simp add: function_call_at_Inr_iff)

lemma tool_call_at_path: "tool_call_at p v = Inr c \<longleftrightarrow> tool_call_at q v = Inr c"
  by (simp add: tool_call_at_Inr_iff
      function_call_at_path [of "p @ [''function'']" _ _ "q @ [''function'']"])

lemma chat_message_at_path: "chat_message_at p v = Inr m \<longleftrightarrow> chat_message_at q v = Inr m"
proof -
  have a: "optional expect_string p' w = Inr i \<longleftrightarrow> optional expect_string q' w = Inr i"
    for p' q' w i
    by (rule optional_path) (simp add: expect_string_Inr_iff)
  have b: "optional (expect_array tool_call_at) p' w = Inr cs \<longleftrightarrow>
           optional (expect_array tool_call_at) q' w = Inr cs" for p' q' w cs
    by (intro optional_path expect_array_path tool_call_at_path)
  show ?thesis
    by (simp add: chat_message_at_Inr_iff
        a [of "p @ [''tool_call_id'']" _ _ "q @ [''tool_call_id'']"]
        b [of "p @ [''tool_calls'']" _ _ "q @ [''tool_calls'']"])
qed

section \<open>A mismatch is reported inside the value that was checked\<close>

text \<open>
  Every validator reports a mismatch at the path it was given or below it: a
  mismatch found while checking the field \<open>k\<close> of a request names a path that starts
  with \<open>k\<close>, one found in element \<open>i\<close> of a list a path through \<open>i\<close>.
\<close>

lemma failure_path_role_content:
  "failure_path (role_at p v) = Some q \<Longrightarrow> q = p"
  "failure_path (content_at p v) = Some q \<Longrightarrow> q = p"
  by (cases v; simp add: role_at_def content_at_def split: option.splits)+

lemma reports_below_role_content: "reports_below role_at" "reports_below content_at"
  by (auto simp: reports_below_def dest: failure_path_role_content)

lemma reports_below_function_call: "reports_below function_call_at"
  unfolding function_call_at_def
  by (rule object_reports_below)
     (auto simp: failure_path_and_then; erule failure_path_field; intro reports_below_intros)

lemma reports_below_tool_call: "reports_below tool_call_at"
  unfolding tool_call_at_def
  by (rule object_reports_below)
     (auto simp: failure_path_and_then; erule failure_path_field;
      intro reports_below_intros reports_below_function_call)

lemma reports_below_tool_function: "reports_below tool_function_at"
  unfolding tool_function_at_def
  by (rule object_reports_below)
     (auto simp: failure_path_and_then; erule failure_path_field; intro reports_below_intros)

lemma reports_below_tool: "reports_below tool_at"
  unfolding tool_at_def
  by (rule object_reports_below)
     (auto simp: failure_path_and_then; erule failure_path_field;
      intro reports_below_intros reports_below_tool_function)

lemma reports_below_tool_choice: "reports_below tool_choice_at"
  by (auto simp: reports_below_def tool_choice_at_def failure_path_and_then
        split: jsval.splits if_splits;
      (erule failure_path_field | (rule prefix_snoc, erule failure_path_field));
      intro reports_below_intros)

lemma reports_below_chat_message: "reports_below chat_message_at"
  unfolding chat_message_at_def
  by (rule object_reports_below)
     (auto simp: failure_path_and_then; erule failure_path_field;
      intro reports_below_intros reports_below_role_content reports_below_tool_call)

lemma reports_below_request: "reports_below request_at"
  unfolding request_at_def
  by (rule object_reports_below)
     (auto simp: failure_path_and_then; erule failure_path_field;
      intro reports_below_intros reports_below_chat_message reports_below_tool
        reports_below_tool_choice)

lemma reports_below_response: "reports_below response_at"
  unfolding response_at_def
  by (rule object_reports_below)
     (auto simp: failure_path_and_then; erule failure_path_field;
      intro reports_below_intros reports_below_tool_call)

lemmas reports_below_validators =
  reports_below_role_content reports_below_function_call reports_below_tool_call
  reports_below_tool_function reports_below_tool reports_below_tool_choice
  reports_below_chat_message reports_below_request reports_below_response

end
