(* ===== verification/SchemaTests.thy ===== *)
theory SchemaTests
  imports ToolSchemas
begin

text \<open>
  The schema suite, \<open>src/backend/tests/unit/ai-tool-calling-schemas.test.ts\<close>.

  The suite imports seven schemas and observes each through
  \<open>schema.safeParse(value).success\<close> only. The schemas under test are therefore a
  function from the name of a schema and a value to a boolean. An expectation
  \<open>expect(schema.safeParse(value).success).toBe(b)\<close> is \<open>Expect schema value b\<close>; an
  \<open>it\<close> block is the list of its expectations; a \<open>describe\<close> block is the list of its
  tests. The values are the object literals of the file.
\<close>

section \<open>The schemas under test\<close>

datatype schema_name =
    ToolFunctionSchema
  | ToolSchema
  | ToolChoiceSchema
  | ToolCallSchema
  | ChatMessageSchema
  | ChatCompletionRequestSchema
  | ChatCompletionResponseSchema

type_synonym validators = "schema_name \<Rightarrow> jsval \<Rightarrow> bool"

datatype expectation = Expect schema_name jsval bool

type_synonym schema_test = "expectation list"

fun holds :: "validators \<Rightarrow> expectation \<Rightarrow> bool" where
  "holds ok (Expect n v b) \<longleftrightarrow> ok n v = b"

definition run_schema_test :: "validators \<Rightarrow> schema_test \<Rightarrow> bool" where
  "run_schema_test ok t = list_all (holds ok) t"

text \<open>
  \<open>{ ...base, key: value }\<close>: the properties of \<open>base\<close>, with those of the second
  object added or replaced.
\<close>

definition spread_with :: "js_object \<Rightarrow> js_object \<Rightarrow> js_object" where
  "spread_with base extra = filter (\<lambda>kv. fst kv \<notin> fst ` set extra) base @ extra"

section \<open>toolFunctionSchema\<close>

definition accepts_a_valid_function_definition_with_all_fields :: schema_test where
  "accepts_a_valid_function_definition_with_all_fields =
     [Expect ToolFunctionSchema
        (JObj [(''name'', JStr ''get_weather''),
               (''description'', JStr ''Get current weather for a city''),
               (''parameters'', JObj
                  [(''type'', JStr ''object''),
                   (''properties'', JObj [(''city'', JObj [(''type'', JStr ''string'')])]),
                   (''required'', JArr [JStr ''city''])])])
        True]"

definition accepts_minimal_function_definition :: schema_test where
  "accepts_minimal_function_definition =
     [Expect ToolFunctionSchema (JObj [(''name'', JStr ''do_something'')]) True]"

definition rejects_missing_name :: schema_test where
  "rejects_missing_name =
     [Expect ToolFunctionSchema (JObj [(''description'', JStr ''no name'')]) False]"

definition toolFunctionSchema_tests :: "schema_test list" where
  "toolFunctionSchema_tests =
     [accepts_a_valid_function_definition_with_all_fields,
      accepts_minimal_function_definition,
      rejects_missing_name]"

section \<open>toolSchema\<close>

definition accepts_a_valid_tool :: schema_test where
  "accepts_a_valid_tool =
     [Expect ToolSchema
        (JObj [(''type'', JStr ''function''),
               (''function'', JObj [(''name'', JStr ''get_weather'')])])
        True]"

definition rejects_invalid_type :: schema_test where
  "rejects_invalid_type =
     [Expect ToolSchema
        (JObj [(''type'', JStr ''invalid''),
               (''function'', JObj [(''name'', JStr ''get_weather'')])])
        False]"

definition toolSchema_tests :: "schema_test list" where
  "toolSchema_tests = [accepts_a_valid_tool, rejects_invalid_type]"

section \<open>toolChoiceSchema\<close>

definition accepts_string_values :: schema_test where
  "accepts_string_values =
     [Expect ToolChoiceSchema (JStr ''auto'') True,
      Expect ToolChoiceSchema (JStr ''none'') True,
      Expect ToolChoiceSchema (JStr ''required'') True]"

definition rejects_invalid_string_value :: schema_test where
  "rejects_invalid_string_value = [Expect ToolChoiceSchema (JStr ''invalid'') False]"

definition accepts_specific_function_choice :: schema_test where
  "accepts_specific_function_choice =
     [Expect ToolChoiceSchema
        (JObj [(''type'', JStr ''function''),
               (''function'', JObj [(''name'', JStr ''get_weather'')])])
        True]"

definition toolChoiceSchema_tests :: "schema_test list" where
  "toolChoiceSchema_tests =
     [accepts_string_values, rejects_invalid_string_value, accepts_specific_function_choice]"

section \<open>toolCallSchema\<close>

definition city_tokyo :: string where
  "city_tokyo = ''{\"city\":\"Tokyo\"}''"

definition accepts_a_valid_tool_call :: schema_test where
  "accepts_a_valid_tool_call =
     [Expect ToolCallSchema
        (JObj [(''id'', JStr ''call_abc123''),
               (''type'', JStr ''function''),
               (''function'', JObj [(''name'', JStr ''get_weather''),
                                    (''arguments'', JStr city_tokyo)])])
        True]"

definition rejects_missing_id :: schema_test where
  "rejects_missing_id =
     [Expect ToolCallSchema
        (JObj [(''type'', JStr ''function''),
               (''function'', JObj [(''name'', JStr ''get_weather''),
                                    (''arguments'', JStr ''{}'')])])
        False]"

definition toolCallSchema_tests :: "schema_test list" where
  "toolCallSchema_tests = [accepts_a_valid_tool_call, rejects_missing_id]"

section \<open>chatMessageSchema - tool role support\<close>

text \<open>The content \<open>{"temp":"22\<degree>C"}\<close>; the degree sign is two bytes in UTF-8.\<close>

definition temp_22_celsius :: string where
  "temp_22_celsius = ''{\"temp\":\"22'' @ [CHR 0xC2, CHR 0xB0] @ ''C\"}''"

definition accepts_tool_role_message :: schema_test where
  "accepts_tool_role_message =
     [Expect ChatMessageSchema
        (JObj [(''role'', JStr ''tool''),
               (''content'', JStr temp_22_celsius),
               (''tool_call_id'', JStr ''call_abc123'')])
        True]"

definition accepts_assistant_message_with_tool_calls :: schema_test where
  "accepts_assistant_message_with_tool_calls =
     [Expect ChatMessageSchema
        (JObj [(''role'', JStr ''assistant''),
               (''content'', JNull),
               (''tool_calls'', JArr
                  [JObj [(''id'', JStr ''call_abc123''),
                         (''type'', JStr ''function''),
                         (''function'', JObj [(''name'', JStr ''get_weather''),
                                              (''arguments'', JStr city_tokyo)])]])])
        True]"

definition accepts_nullable_content :: schema_test where
  "accepts_nullable_content =
     [Expect ChatMessageSchema
        (JObj [(''role'', JStr ''assistant''), (''content'', JNull)])
        True]"

definition still_accepts_regular_messages_without_tool_fields :: schema_test where
  "still_accepts_regular_messages_without_tool_fields =
     [Expect ChatMessageSchema
        (JObj [(''role'', JStr ''user''), (''content'', JStr ''Hello'')])
        True]"

definition chatMessageSchema_tests :: "schema_test list" where
  "chatMessageSchema_tests =
     [accepts_tool_role_message,
      accepts_assistant_message_with_tool_calls,
      accepts_nullable_content,
      still_accepts_regular_messages_without_tool_fields]"

section \<open>chatCompletionRequestSchema - tool fields\<close>

definition baseRequest :: js_object where
  "baseRequest =
     [(''model'', JStr ''openai/gpt-4''),
      (''messages'', JArr [JObj [(''role'', JStr ''user''), (''content'', JStr ''Hello'')]])]"

definition accepts_request_with_tools :: schema_test where
  "accepts_request_with_tools =
     [Expect ChatCompletionRequestSchema
        (JObj (spread_with baseRequest
           [(''tools'', JArr
              [JObj [(''type'', JStr ''function''),
                     (''function'', JObj
                        [(''name'', JStr ''get_weather''),
                         (''parameters'', JObj [(''type'', JStr ''object''),
                                                (''properties'', JObj [])])])]])]))
        True]"

definition accepts_request_with_tool_choice :: schema_test where
  "accepts_request_with_tool_choice =
     [Expect ChatCompletionRequestSchema
        (JObj (spread_with baseRequest [(''tool_choice'', JStr ''auto'')]))
        True]"

definition accepts_request_with_parallel_tool_calls :: schema_test where
  "accepts_request_with_parallel_tool_calls =
     [Expect ChatCompletionRequestSchema
        (JObj (spread_with baseRequest [(''parallel_tool_calls'', JBool True)]))
        True]"

definition accepts_request_without_any_tool_fields :: schema_test where
  "accepts_request_without_any_tool_fields =
     [Expect ChatCompletionRequestSchema (JObj baseRequest) True]"

definition chatCompletionRequestSchema_tests :: "schema_test list" where
  "chatCompletionRequestSchema_tests =
     [accepts_request_with_tools,
      accepts_request_with_tool_choice,
      accepts_request_with_parallel_tool_calls,
      accepts_request_without_any_tool_fields]"

section \<open>chatCompletionResponseSchema - tool_calls\<close>

definition accepts_response_with_tool_calls :: schema_test where
  "accepts_response_with_tool_calls =
     [Expect ChatCompletionResponseSchema
        (JObj [(''text'', JStr []),
               (''tool_calls'', JArr
                  [JObj [(''id'', JStr ''call_abc123''),
                         (''type'', JStr ''function''),
                         (''function'', JObj [(''name'', JStr ''get_weather''),
                                              (''arguments'', JStr city_tokyo)])]]),
               (''metadata'', JObj [(''model'', JStr ''openai/gpt-4'')])])
        True]"

definition accepts_response_without_tool_calls :: schema_test where
  "accepts_response_without_tool_calls =
     [Expect ChatCompletionResponseSchema
        (JObj [(''text'', JStr ''Hello!''),
               (''metadata'', JObj [(''model'', JStr ''openai/gpt-4'')])])
        True]"

definition chatCompletionResponseSchema_tests :: "schema_test list" where
  "chatCompletionResponseSchema_tests =
     [accepts_response_with_tool_calls, accepts_response_without_tool_calls]"

section \<open>The suite\<close>

definition tool_calling_schemas_suite :: "schema_test list" where
  "tool_calling_schemas_suite =
     toolFunctionSchema_tests @ toolSchema_tests @ toolChoiceSchema_tests @
     toolCallSchema_tests @ chatMessageSchema_tests @ chatCompletionRequestSchema_tests @
     chatCompletionResponseSchema_tests"

definition passes_schema_suite :: "validators \<Rightarrow> bool" where
  "passes_schema_suite ok = list_all (run_schema_test ok) tool_calling_schemas_suite"

lemmas schema_tests [test_defs] =
  accepts_a_valid_function_definition_with_all_fields_def
  accepts_minimal_function_definition_def rejects_missing_name_def
  accepts_a_valid_tool_def rejects_invalid_type_def
  accepts_string_values_def rejects_invalid_string_value_def
  accepts_specific_function_choice_def
  accepts_a_valid_tool_call_def rejects_missing_id_def
  accepts_tool_role_message_def accepts_assistant_message_with_tool_calls_def
  accepts_nullable_content_def still_accepts_regular_messages_without_tool_fields_def
  accepts_request_with_tools_def accepts_request_with_tool_choice_def
  accepts_request_with_parallel_tool_calls_def accepts_request_without_any_tool_fields_def
  accepts_response_with_tool_calls_def accepts_response_without_tool_calls_def

lemmas schema_blocks =
  toolFunctionSchema_tests_def toolSchema_tests_def toolChoiceSchema_tests_def
  toolCallSchema_tests_def chatMessageSchema_tests_def chatCompletionRequestSchema_tests_def
  chatCompletionResponseSchema_tests_def

section \<open>The validators of the specification, as the suite sees them\<close>

fun safeParse_success :: validators where
  "safeParse_success ToolFunctionSchema v = succeeded (toolFunctionSchema v)"
| "safeParse_success ToolSchema v = succeeded (toolSchema v)"
| "safeParse_success ToolChoiceSchema v = succeeded (toolChoiceSchema v)"
| "safeParse_success ToolCallSchema v = succeeded (toolCallSchema v)"
| "safeParse_success ChatMessageSchema v = succeeded (chatMessageSchema v)"
| "safeParse_success ChatCompletionRequestSchema v = succeeded (chatCompletionRequestSchema v)"
| "safeParse_success ChatCompletionResponseSchema v = succeeded (chatCompletionResponseSchema v)"

section \<open>Running the suite\<close>

lemma get_prop_filter_keys:
  "get_prop (filter (\<lambda>kv. fst kv \<notin> K) base) k = (if k \<in> K then JUndefined else get_prop base k)"
  by (induction base) auto

text \<open>A spread object has the added properties, and those of the base for every other key.\<close>

lemma get_prop_spread_with:
  "get_prop (spread_with base extra) k =
     (if k \<in> fst ` set extra then get_prop extra k else get_prop base k)"
proof (cases "k \<in> fst ` set extra")
  case True
  then have "k \<notin> fst ` set (filter (\<lambda>kv. fst kv \<notin> fst ` set extra) base)"
    by force
  with True show ?thesis
    by (simp add: spread_with_def get_prop_append)
next
  case False
  let ?kept = "filter (\<lambda>kv. fst kv \<notin> fst ` set extra) base"
  from False have "get_prop extra k = JUndefined"
    by (rule get_prop_absent)
  moreover from False have "get_prop ?kept k = get_prop base k"
    by (simp add: get_prop_filter_keys)
  moreover have "get_prop ?kept k = JUndefined" if "k \<notin> fst ` set ?kept"
    using that by (rule get_prop_absent)
  ultimately show ?thesis
    using False by (simp add: spread_with_def get_prop_append)
qed

lemmas run_defs =
  run_schema_test_def schema_top_defs validator_defs shape_defs expect_array.simps
  traverse_def get_prop_spread_with baseRequest_def

lemmas schema_suite_defs = passes_schema_suite_def tool_calling_schemas_suite_def

section \<open>The readings of the specification\<close>

text \<open>
  Sections 3 and 4.2 of the specification differ in three points, and the
  validators of theory \<open>ToolSchemas\<close> take one side in each.
  \<^item> The description and the parameters of a tool definition are "optional text" and
    an "optional structured schema object" in section 3, "unconstrained beyond being
    present-or-absent" in section 4.2. The model does not constrain them.
  \<^item> The metadata of a response is an "object containing at least the model
    identifier" in section 3, an "object" in section 4.2. The model asks for an
    object.
  \<^item> A chat message has a content that is "text or null" in section 3; section 4.2
    promises "success for any object with a recognized role". The model requires
    the content to be there.

  A reading says which side is taken in each point; \<open>safeParse_under\<close> is what the
  suite sees of the validators under a reading. Under \<open>model_reading\<close> they are the
  validators of the model.
\<close>

record reading =
  typed_definition :: bool
  metadata_model :: bool
  content_optional :: bool

definition model_reading :: reading where
  "model_reading = \<lparr>typed_definition = False, metadata_model = False, content_optional = False\<rparr>"

text \<open>A tool definition, a tool and the tools of a request, typed as in section 3.\<close>

fun definition_typed :: "jsval \<Rightarrow> bool" where
  "definition_typed (JObj d) \<longleftrightarrow>
     (case get_prop d ''description'' of JUndefined \<Rightarrow> True | JStr _ \<Rightarrow> True | _ \<Rightarrow> False) \<and>
     (case get_prop d ''parameters'' of JUndefined \<Rightarrow> True | JObj _ \<Rightarrow> True | _ \<Rightarrow> False)"
| "definition_typed _ \<longleftrightarrow> False"

fun tool_typed :: "jsval \<Rightarrow> bool" where
  "tool_typed (JObj t) \<longleftrightarrow> definition_typed (get_prop t ''function'')"
| "tool_typed _ \<longleftrightarrow> False"

fun tools_typed :: "jsval \<Rightarrow> bool" where
  "tools_typed (JObj r) \<longleftrightarrow>
     (case get_prop r ''tools'' of JArr ts \<Rightarrow> list_all tool_typed ts | _ \<Rightarrow> True)"
| "tools_typed _ \<longleftrightarrow> False"

text \<open>A response whose metadata names the model.\<close>

fun names_model :: "jsval \<Rightarrow> bool" where
  "names_model (JObj r) \<longleftrightarrow>
     (case get_prop r ''metadata'' of
        JObj md \<Rightarrow> (case get_prop md ''model'' of JStr _ \<Rightarrow> True | _ \<Rightarrow> False)
      | _ \<Rightarrow> False)"
| "names_model _ \<longleftrightarrow> False"

text \<open>
  A message, and the messages of a request, with a missing content read as \<open>null\<close>:
  a message is accepted without its content when it is accepted with \<open>null\<close> for it.
\<close>

fun with_content :: "jsval \<Rightarrow> jsval" where
  "with_content (JObj m) =
     (if get_prop m ''content'' = JUndefined then JObj (m @ [(''content'', JNull)]) else JObj m)"
| "with_content v = v"

fun with_contents :: "jsval \<Rightarrow> jsval" where
  "with_contents (JObj r) =
     (case get_prop r ''messages'' of
        JArr ms \<Rightarrow> JObj (spread_with r [(''messages'', JArr (map with_content ms))])
      | _ \<Rightarrow> JObj r)"
| "with_contents v = v"

fun safeParse_under :: "reading \<Rightarrow> validators" where
  "safeParse_under rd ToolFunctionSchema v \<longleftrightarrow>
     safeParse_success ToolFunctionSchema v \<and>
     (if typed_definition rd then definition_typed v else True)"
| "safeParse_under rd ToolSchema v \<longleftrightarrow>
     safeParse_success ToolSchema v \<and> (if typed_definition rd then tool_typed v else True)"
| "safeParse_under rd ChatMessageSchema v \<longleftrightarrow>
     safeParse_success ChatMessageSchema (if content_optional rd then with_content v else v)"
| "safeParse_under rd ChatCompletionRequestSchema v \<longleftrightarrow>
     safeParse_success ChatCompletionRequestSchema
       (if content_optional rd then with_contents v else v) \<and>
     (if typed_definition rd then tools_typed v else True)"
| "safeParse_under rd ChatCompletionResponseSchema v \<longleftrightarrow>
     safeParse_success ChatCompletionResponseSchema v \<and>
     (if metadata_model rd then names_model v else True)"
| "safeParse_under rd n v \<longleftrightarrow> safeParse_success n v"

lemma safeParse_under_model_reading: "safeParse_under model_reading = safeParse_success"
  by (intro ext, rename_tac n v, case_tac n) (simp_all add: model_reading_def)

text \<open>Each \<open>describe\<close> block passes, under every reading.\<close>

lemma safeParse_under_blocks:
  "list_all (run_schema_test (safeParse_under rd)) toolFunctionSchema_tests"
  "list_all (run_schema_test (safeParse_under rd)) toolSchema_tests"
  "list_all (run_schema_test (safeParse_under rd)) toolChoiceSchema_tests"
  "list_all (run_schema_test (safeParse_under rd)) toolCallSchema_tests"
  "list_all (run_schema_test (safeParse_under rd)) chatMessageSchema_tests"
  "list_all (run_schema_test (safeParse_under rd)) chatCompletionRequestSchema_tests"
  "list_all (run_schema_test (safeParse_under rd)) chatCompletionResponseSchema_tests"
  by (simp_all add: schema_blocks schema_tests run_defs)

text \<open>In particular the validators of the model pass the suite.\<close>

lemma schemas_pass_suite: "passes_schema_suite safeParse_success"
  using safeParse_under_blocks [of model_reading]
  by (simp add: schema_suite_defs safeParse_under_model_reading)

text \<open>
  C16 (functional). The suite does not decide between the readings of the
  specification. Under each of the eight readings the validators pass all twenty
  tests, although each point changes what is accepted: a definition with a number
  for its description, a response whose metadata does not name the model, a
  message without content.
\<close>

theorem suite_undecided_between_readings:
  "passes_schema_suite (safeParse_under rd) \<and>
   safeParse_under rd ToolFunctionSchema
     (JObj [(''name'', JStr ''f''), (''description'', JNum 1)]) = (\<not> typed_definition rd) \<and>
   safeParse_under rd ChatCompletionResponseSchema
     (JObj [(''text'', JStr ''''), (''metadata'', JObj [])]) = (\<not> metadata_model rd) \<and>
   safeParse_under rd ChatMessageSchema (JObj [(''role'', JStr ''user'')]) = content_optional rd"
  by (simp add: schema_suite_defs safeParse_under_blocks run_defs role_of_name_def)

section \<open>What the suite leaves open\<close>

text \<open>
  Validators with a plausible fault: they accept every value as a chat message, a
  request or a response, and are the validators of the specification otherwise.
\<close>

fun lenient_composites :: validators where
  "lenient_composites ChatMessageSchema v = True"
| "lenient_composites ChatCompletionRequestSchema v = True"
| "lenient_composites ChatCompletionResponseSchema v = True"
| "lenient_composites n v = safeParse_success n v"

lemma lenient_composites_blocks:
  "list_all (run_schema_test lenient_composites) toolFunctionSchema_tests"
  "list_all (run_schema_test lenient_composites) toolSchema_tests"
  "list_all (run_schema_test lenient_composites) toolChoiceSchema_tests"
  "list_all (run_schema_test lenient_composites) toolCallSchema_tests"
  "list_all (run_schema_test lenient_composites) chatMessageSchema_tests"
  "list_all (run_schema_test lenient_composites) chatCompletionRequestSchema_tests"
  "list_all (run_schema_test lenient_composites) chatCompletionResponseSchema_tests"
  by (simp_all add: schema_blocks schema_tests run_defs)

text \<open>
  C15 (functional). The suite has no rejecting test for chat messages, requests and
  responses: validators that accept every value for these three pass it, also a
  message with the role \<open>wizard\<close>, which the specification rejects.
\<close>

theorem suite_misses_composite_rejections:
  "passes_schema_suite lenient_composites \<and>
   lenient_composites ChatMessageSchema (JObj [(''role'', JStr ''wizard''), (''content'', JNull)]) \<and>
   \<not> safeParse_success ChatMessageSchema (JObj [(''role'', JStr ''wizard''), (''content'', JNull)])"
  by (simp add: schema_suite_defs lenient_composites_blocks run_defs role_of_name_def)

section \<open>Where a request built from the base request fails\<close>

text \<open>
  The base request of the suite with any tool choice: the other fields are accepted,
  so the outcome is that of the tool choice.
\<close>

lemma request_with_tool_choice:
  "chatCompletionRequestSchema (JObj (spread_with baseRequest [(''tool_choice'', v)])) =
     and_then (optional tool_choice_at [''tool_choice''] v) (\<lambda>c.
       Inr \<lparr>req_model = ''openai/gpt-4'',
            req_messages =
              [\<lparr>role = User, content = Value ''Hello'', tool_call_id = None, tool_calls = None\<rparr>],
            req_tools = None, req_tool_choice = c, req_parallel_tool_calls = None\<rparr>)"
  by (simp add: run_defs role_of_name_def)

text \<open>The third concrete case of section 8: with \<open>tool_choice: "invalid"\<close> it is rejected.\<close>

lemma invalid_tool_choice_rejected:
  "\<not> safeParse_success ChatCompletionRequestSchema
       (JObj (spread_with baseRequest [(''tool_choice'', JStr ''invalid'')]))"
  by (simp add: request_with_tool_choice shape_defs tool_choice_at_def)

text \<open>
  C11 (error). Whatever tool choice is added to the base request of the suite, a
  rejection blames the tool choice: the path of the mismatch starts with
  \<open>tool_choice\<close>.
\<close>

theorem request_blames_tool_choice:
  "failure_path (chatCompletionRequestSchema
      (JObj (spread_with baseRequest [(''tool_choice'', v)]))) = Some q \<Longrightarrow>
   prefix [''tool_choice''] q"
  by (auto simp: request_with_tool_choice failure_path_and_then
      dest: reports_belowD [OF reports_below_optional [OF reports_below_tool_choice]])

theorem request_blames_tool_choice_witness:
  "failure_path (chatCompletionRequestSchema
      (JObj (spread_with baseRequest
         [(''tool_choice'', JObj [(''type'', JStr ''function''), (''function'', JObj [])])]))) =
     Some [''tool_choice'', ''function'', ''name''] \<and>
   prefix [''tool_choice''] [''tool_choice'', ''function'', ''name'']"
  using request_blames_tool_choice
    [of "JObj [(''type'', JStr ''function''), (''function'', JObj [])]"
      "[''tool_choice'', ''function'', ''name'']"]
  by (simp add: run_defs)

section \<open>Validating twice\<close>

text \<open>
  Validating a value, encoding what was parsed and validating the encoding gives
  the result of the first validation: the same parsed value, or the same failure.
\<close>

definition again :: "('a \<Rightarrow> jsval) \<Rightarrow> (jsval \<Rightarrow> 'a parsed) \<Rightarrow> jsval \<Rightarrow> bool" where
  "again enc schema v \<longleftrightarrow> and_then (schema v) (\<lambda>x. schema (enc x)) = schema v"

fun reparses :: "schema_name \<Rightarrow> jsval \<Rightarrow> bool" where
  "reparses ToolFunctionSchema v = again encode_tool_definition toolFunctionSchema v"
| "reparses ToolSchema v = again encode_tool toolSchema v"
| "reparses ToolChoiceSchema v = again encode_tool_choice toolChoiceSchema v"
| "reparses ToolCallSchema v = again encode_tool_call toolCallSchema v"
| "reparses ChatMessageSchema v = again encode_message chatMessageSchema v"
| "reparses ChatCompletionRequestSchema v = again encode_request chatCompletionRequestSchema v"
| "reparses ChatCompletionResponseSchema v = again encode_response chatCompletionResponseSchema v"

lemma againI: "(\<And>x. schema v = Inr x \<Longrightarrow> schema (enc x) = Inr x) \<Longrightarrow> again enc schema v"
  by (cases "schema v") (simp_all add: again_def)

text \<open>
  C10 (roundtrip). For each of the seven schemas the suite imports and for every
  value: what the schema parses from the value, it parses again from the encoding
  of the parsed value.
\<close>

theorem parsed_values_reparse: "reparses n v"
  by (cases n) (auto simp: schema_top_defs intro!: againI intro: roundtrips parsed_valid)

end
