(* ===== verification/Spec2Isabelle.thy ===== *)
theory Spec2Isabelle
  imports Prelude JsValue CellRenderer ChatTypes FormatMessages FormatTests Shapes ToolSchemas SchemaTests
begin

text \<open>
  Verification development for the InsForge sources: the data-grid cell renderer
  factory of the admin UI, and the two unit-test suites of the tool-calling chat
  service.

  \<^bold>\<open>The program.\<close> Three files are under \<open>src/\<close>.
  \<^item> \<open>src/frontend/src/components/datagrid/DefaultCellRenderer.tsx\<close> is the one
    implementation file. \<open>createDefaultCellRenderer\<close> returns an object of seven
    renderers (\<open>text\<close>, \<open>boolean\<close>, \<open>datetime\<close>, \<open>date\<close>, \<open>json\<close>, \<open>id\<close>, \<open>email\<close>). A
    renderer reads \<open>row[column.key]\<close>, asks \<open>isEmptyValue\<close> and
    \<open>formatValueForDisplay\<close> about the value and builds an element whose classes
    say how the value is shown: muted for an empty value, red for a value whose
    display text is the failure text of the kind.
  \<^item> \<open>src/backend/tests/unit/ai-tool-calling-format.test.ts\<close> has six tests of
    \<open>ChatCompletionService.formatMessages\<close>.
  \<^item> \<open>src/backend/tests/unit/ai-tool-calling-schemas.test.ts\<close> has twenty tests of
    the seven schemas of \<open>@insforge/shared-schemas\<close>.

  The formatter and the schemas that the suites test are not under \<open>src/\<close>. They are
  modelled from the specification (sections 3, 4.1, 4.2 and 7); the suites are
  modelled from their source, as data, and run against any formatter and any
  family of validators. The two parts of the chat service meet in the chat message:
  the validators produce it from a request body, the formatter rewrites it for the
  provider.

  \<^bold>\<open>The theories.\<close>
  \<^descr>[\<open>Prelude\<close>] The collections of rules (\<open>js_defs\<close>, \<open>render_defs\<close>, \<open>render_view\<close>,
    \<open>chat_defs\<close>, \<open>schema_defs\<close>, \<open>test_defs\<close>); the result type \<open>('e, 'a) result\<close> of
    fallible operations with \<open>and_then\<close> and the indexed \<open>traverse\<close>; guarded indexing
    \<open>nth_opt\<close> and \<open>at\<close>; lemmas on association lists.
  \<^descr>[\<open>JsValue\<close>] The datatype \<open>jsval\<close> of JavaScript values; \<open>get_prop\<close> for
    \<open>obj[key]\<close>, \<open>truthy\<close> for the test of a conditional, \<open>js_String\<close> for
    \<open>String(value)\<close>. Lemmas: lookup in literals and appended lists; printing an
    integer is injective and read back by \<open>digits_value\<close>.
  \<^descr>[\<open>CellRenderer\<close>] \<open>DefaultCellRenderer.tsx\<close>. One definition per renderer
    (\<open>text_cell\<close>, \<open>boolean\<close>, \<open>datetime\<close>, \<open>date\<close>, \<open>json\<close>, \<open>id_cell\<close>, \<open>email\<close>), each with
    the local constants of the source (\<open>value\<close>, \<open>isNull\<close>, \<open>displayValue\<close>, \<open>isError\<close>)
    and the element tree of its JSX; \<open>createDefaultCellRenderer\<close> maps the key of a
    renderer to it. The imported utilities are the parameter record \<open>utils\<close>; \<open>cn\<close>
    is kept as the constructor \<open>Cn\<close> with its arguments, so \<open>classes\<close> reads the
    arguments of \<open>cn\<close> and not the string it returns. The observers \<open>classes\<close>,
    \<open>texts\<close>, \<open>attrs\<close> and \<open>view_of\<close> read a tree as a user sees it; \<open>view_spec\<close> says what
    a cell is to show. Lemmas (collection \<open>render_view\<close>): the classes, text, tooltip
    and variant of each renderer. Theorems: the renderers refine \<open>view_spec\<close> (text,
    tooltip, tone and badge variant); muted and red exclude each other; when a
    cell is red and when it is muted; the id renderer on a missing key and on
    numeric ids; a renderer depends on the cell value and on the answers of the
    utilities for it only.
  \<^descr>[\<open>ChatTypes\<close>] The records and datatypes of section 3 of the specification
    (\<open>chat_message\<close>, \<open>tool_call\<close>, \<open>tool\<close>, \<open>tool_choice\<close>, request, response) and
    \<open>wire_shaped\<close>, the shape of a message the formatter emits.
  \<^descr>[\<open>FormatMessages\<close>] \<open>formatMessage\<close> and \<open>formatMessages\<close> from section 4.1. Two
    contracts: \<open>meets_contract\<close> fixes every field and is met by \<open>formatMessages\<close>
    alone; \<open>meets_either_reading\<close> leaves open what section 4.1 leaves open (whether
    a field that the role of a message does not use is dropped or kept) and is met
    by many formatters, \<open>keeps_fields\<close> among them. Lemmas: length, order and fields
    of the result; formatted messages are \<open>wire_shaped\<close> and formatting is idempotent;
    on messages that use their own fields only, every formatter of either reading
    is \<open>formatMessages\<close>.
  \<^descr>[\<open>FormatTests\<close>] The format suite: a test is a record \<open>format_test\<close> (messages,
    prompt, expectation), one definition per \<open>it\<close> block, \<open>passes_format_suite\<close> for the
    \<open>describe\<close> block. Theorems: every formatter of either reading passes the suite;
    two faulty formatters (\<open>prompt_always\<close>, \<open>first_call_only\<close>) pass it too.
  \<^descr>[\<open>Shapes\<close>] The failure \<open>ShapeMismatch\<close> with its path, the primitive shapes and
    the combinators \<open>optional\<close>, \<open>expect_array\<close>, \<open>field\<close>. Lemmas: when a shape
    accepts (\<open>_Inr_iff\<close>), and that a failure is reported at the given path or below
    (\<open>reports_below\<close>).
  \<^descr>[\<open>ToolSchemas\<close>] The validators \<open>x_at\<close> of section 4.2 and the schemas
    \<open>toolFunctionSchema\<close> to \<open>chatCompletionResponseSchema\<close>. The encoders
    (\<open>encode_message\<close> and the like) and the invariants (\<open>valid_message\<close> and the
    like) are devices of this development, found neither in the sources nor in the
    specification: an encoder writes a value of the data model as the JavaScript
    value it is parsed from, an invariant says what parsing guarantees of a value.
    Lemmas: characterisation of acceptance of each validator; a parsed value is
    valid; encoding a valid value and validating it gives the value back; the
    path does not decide acceptance; every validator reports below its path.
  \<^descr>[\<open>SchemaTests\<close>] The schema suite: an \<open>expect\<close> call is an \<open>expectation\<close>
    (schema, value, outcome), an \<open>it\<close> block a list of them, one definition per
    \<open>it\<close> and per \<open>describe\<close> block; \<open>spread_with\<close> for the object spread of the request
    tests. \<open>safeParse_under\<close> gives the validators under each reading of the three
    points in which sections 3 and 4.2 differ. Theorems: the suite passes under
    every reading; it has no rejecting test for messages, requests and responses;
    a request built from \<open>baseRequest\<close> blames the tool choice; validating twice.
  \<^descr>[\<open>Spec2Isabelle\<close>] This theory: the formatter and the validators together.
    Lemmas: a formatter of either reading keeps messages valid, and what it returns
    is accepted by \<open>chatMessageSchema\<close> (the round trip of section 8). With parsed
    messages as the interface this is immediate, and no property of the sources
    rests on it.

  \<^bold>\<open>Bounds.\<close> Nothing in the development is bounded by fuel: every definition is a
  total function, by structural recursion or, for \<open>nat_digits\<close>, by recursion on
  \<open>n div 10\<close>, which decreases. Numbers are unbounded integers: fractions, \<open>NaN\<close>,
  the infinities and \<open>-0\<close> are outside the model, and \<open>js_String\<close> prints plain
  decimal, which is \<open>String\<close> on integers below \<open>1e21\<close> in magnitude only (the
  sources apply \<open>String\<close> to identifiers). Objects are association lists read by
  first match; inherited properties such as \<open>constructor\<close> are not found by
  \<open>get_prop\<close>. Text is a list of bytes.

  \<^bold>\<open>Not modelled.\<close> The implementations of \<open>isEmptyValue\<close>, \<open>formatValueForDisplay\<close> and
  \<open>cn\<close> (imported from \<open>@/lib/utils/utils\<close>; the renderers are proved for all
  utilities); the components \<open>Badge\<close> and \<open>IdCell\<close> and the grid that calls the
  renderers (they appear as tags of the tree); the mocked collaborators of the
  service in the format suite; the provider and the HTTP layer. The key order of
  parsed objects and the messages of a mismatch beyond its path and expected shape
  are not part of the model. The suites read \<open>success\<close> only, so the paths of
  mismatches are a matter of the specification (section 7), not of the sources.

  \<^bold>\<open>Next.\<close> The paths of mismatches are proved to lie below the checked value; that
  they address a location of the value is left to a later extension, as is a model
  of \<open>isEmptyValue\<close> and \<open>formatValueForDisplay\<close> against which the renderers could be
  run end to end.
\<close>

section \<open>The formatter and the validators together\<close>

text \<open>
  Section 8 of the specification asks that the output of the formatter validates
  as a chat message whenever its input did. In the model the formatter works on
  messages that have been parsed, and a parsed message is valid, so the question is
  whether formatting keeps a message valid and whether a valid message is accepted
  again once it is written back. Both hold for every formatter that meets the
  contract under either reading, since such a formatter keeps or drops the tool
  calls of a message and does not touch a call.
\<close>

lemma valid_system_message [simp]: "valid_message (system_message s)"
  by (simp add: valid_message_def system_message_def)

lemma valid_prompt_prefix [simp]: "list_all valid_message (prompt_prefix sp)"
  by (simp add: prompt_prefix_def split: option.splits)

lemma formats_either_valid: "formats_either m r \<Longrightarrow> valid_message m \<Longrightarrow> valid_message r"
  by (auto simp: formats_either_def valid_message_def kept_or_dropped_def
      split: if_splits option.splits)

lemma list_all2_formats_either_valid:
  "list_all2 formats_either ms rs \<Longrightarrow> list_all valid_message ms \<Longrightarrow> list_all valid_message rs"
  by (induction rule: list_all2_induct) (auto intro: formats_either_valid)

lemma either_reading_valid:
  assumes "meets_either_reading fm" "list_all valid_message ms"
  shows "list_all valid_message (fm ms sp)"
proof -
  from assms(1) have prefix: "fm ms sp = prompt_prefix sp @ fm ms None"
    and each: "list_all2 formats_either ms (fm ms None)"
    unfolding meets_either_reading_def by blast+
  from each assms(2) have rest: "list_all valid_message (fm ms None)"
    by (rule list_all2_formats_either_valid)
  show ?thesis
    by (subst prefix) (simp add: rest)
qed

text \<open>The round trip: what such a formatter returns is accepted, and parses to itself.\<close>

lemma either_reading_round_trip:
  assumes "meets_either_reading fm" "list_all valid_message ms"
  shows "list_all (\<lambda>m. chatMessageSchema (encode_message m) = Inr m) (fm ms sp)"
  using either_reading_valid [OF assms, of sp]
  by (simp add: list_all_iff chatMessageSchema_def chat_message_roundtrip)

text \<open>For the formatter of the model, starting from any value that is accepted.\<close>

lemma formatted_message_accepted:
  assumes "chatMessageSchema v = Inr m"
  shows "chatMessageSchema (encode_message (formatMessage m)) = Inr (formatMessage m)"
proof -
  from assms have "valid_message m"
    unfolding chatMessageSchema_def by (rule chat_message_parsed_valid)
  then have "valid_message (formatMessage m)"
    by (rule formats_either_valid [OF formats_like_either [OF formats_like_formatMessage]])
  then show ?thesis
    unfolding chatMessageSchema_def by (rule chat_message_roundtrip)
qed

end
